theory Spec2Isabelle
  imports Complex_Main "HOL-Library.Log_Nat" "HOL-Library.AList"
begin

section \<open>Python values used by the bookstore inventory\<close>

subsection \<open>Exceptions\<close>

text \<open>
  The exceptions that the modelled code can raise. A computation that may raise returns
  \<open>py_error + 'a\<close>, with \<open>Inl\<close> carrying the exception.
\<close>

datatype py_error =
    ValueError
  | OverflowError
  | KeyError string
  | AttributeError string
  | JSONDecodeError

subsection \<open>Floats\<close>

text \<open>
  A Python \<open>float\<close> is an IEEE 754 binary64 number. A finite one is represented by the
  rational number it denotes; the two infinities and NaN are separate values. The sign of
  a zero is not recorded: every float the inventory computes is either handed to
  \<open>math.ceil\<close>, which sends both zeros to the integer 0, or is the quotient of an
  integer by 100, which is never a negative zero.
\<close>

datatype pyfloat = Fin rat | PInf | NInf | NaN

text \<open>Rounding a rational to the nearest integer, ties to the even one.\<close>

definition round_half_even :: "rat \<Rightarrow> int" where
  "round_half_even x =
     (let f = \<lfloor>x\<rfloor>; d = x - of_int f
      in if d < 1 / 2 then f
         else if 1 / 2 < d then f + 1
         else if even f then f else f + 1)"

text \<open>The binary exponent of a positive rational: \<open>2 powi e \<le> x < 2 powi (e + 1)\<close>.\<close>

definition ilog2 :: "rat \<Rightarrow> int" where
  "ilog2 x =
     (let (a, b) = quotient_of x; d = bitlen a - bitlen b
      in if 2 powi d \<le> x then d else d - 1)"

text \<open>
  Round-to-nearest, ties-to-even, into binary64: 53 significant bits, the unit in the last
  place never below \<open>2 powi (- 1074)\<close> (subnormal numbers), and a result of magnitude
  \<open>2 ^ 1024\<close> or more becomes an infinity. The largest float is
  \<open>(2 ^ 53 - 1) * 2 ^ 971\<close>, one unit in the last place below that limit.
\<close>

definition double_limit :: rat where
  "double_limit = 2 ^ 1024"

definition round_double :: "rat \<Rightarrow> pyfloat" where
  "round_double x =
     (if x = 0 then Fin 0
      else
        let q = max (ilog2 \<bar>x\<bar> - 52) (- 1074);
            m = round_half_even (\<bar>x\<bar> / 2 powi q);
            y = of_int m * 2 powi q
        in if double_limit \<le> y then (if 0 < x then PInf else NInf)
           else Fin (sgn x * y))"

text \<open>The float that a decimal literal or a parsed decimal string denotes.\<close>

definition float_lit :: "rat \<Rightarrow> pyfloat" where
  "float_lit x = round_double x"

text \<open>\<open>float * float\<close>.\<close>

fun fmul :: "pyfloat \<Rightarrow> pyfloat \<Rightarrow> pyfloat" where
  "fmul NaN _ = NaN"
| "fmul _ NaN = NaN"
| "fmul (Fin a) (Fin b) = round_double (a * b)"
| "fmul (Fin a) PInf = (if a = 0 then NaN else if 0 < a then PInf else NInf)"
| "fmul (Fin a) NInf = (if a = 0 then NaN else if 0 < a then NInf else PInf)"
| "fmul PInf (Fin b) = (if b = 0 then NaN else if 0 < b then PInf else NInf)"
| "fmul NInf (Fin b) = (if b = 0 then NaN else if 0 < b then NInf else PInf)"
| "fmul PInf PInf = PInf"
| "fmul PInf NInf = NInf"
| "fmul NInf PInf = NInf"
| "fmul NInf NInf = PInf"

text \<open>
  The conversion of an \<open>int\<close> operand of a float operation: correctly rounded, and
  \<open>OverflowError\<close> when the integer is too large for a float.
\<close>

definition float_of_int :: "int \<Rightarrow> py_error + pyfloat" where
  "float_of_int n =
     (case round_double (of_int n) of
        Fin r \<Rightarrow> Inr (Fin r)
      | _ \<Rightarrow> Inl OverflowError)"

text \<open>\<open>float * int\<close>: the integer is converted first.\<close>

definition fmul_int :: "pyfloat \<Rightarrow> int \<Rightarrow> py_error + pyfloat" where
  "fmul_int x n =
     (case float_of_int n of
        Inl e \<Rightarrow> Inl e
      | Inr y \<Rightarrow> Inr (fmul x y))"

text \<open>\<open>math.ceil\<close> of a float: an \<open>int\<close>, or an exception on an infinity or NaN.\<close>

fun py_ceil :: "pyfloat \<Rightarrow> py_error + int" where
  "py_ceil (Fin r) = Inr \<lceil>r\<rceil>"
| "py_ceil PInf = Inl OverflowError"
| "py_ceil NInf = Inl OverflowError"
| "py_ceil NaN = Inl ValueError"

text \<open>
  \<open>n / 100\<close> for an \<open>int\<close> \<open>n\<close>: true division of integers is correctly rounded,
  and raises \<open>OverflowError\<close> when the quotient is too large for a float.
\<close>

definition int_div_100 :: "int \<Rightarrow> py_error + pyfloat" where
  "int_div_100 n =
     (case round_double (of_int n / 100) of
        Fin r \<Rightarrow> Inr (Fin r)
      | _ \<Rightarrow> Inl OverflowError)"

text \<open>The expression \<open>math.ceil(x * 100) / 100\<close> for a float \<open>x\<close>.\<close>

definition ceil_cents :: "pyfloat \<Rightarrow> py_error + pyfloat" where
  "ceil_cents x =
     (case fmul_int x 100 of
        Inl e \<Rightarrow> Inl e
      | Inr y \<Rightarrow>
          (case py_ceil y of
             Inl e \<Rightarrow> Inl e
           | Inr n \<Rightarrow> int_div_100 n))"

subsection \<open>Strings\<close>

text \<open>
  A \<open>str\<close> is the list of its code points. The type \<open>char\<close> provides the code points
  below 256 (Latin-1), and the string methods are modelled on that range: there,
  \<open>str.strip\<close> removes the code points 9 to 13, 28 to 32, 133 and 160, and \<open>str.lower\<close>
  maps \<open>A\<close> to \<open>Z\<close> and the capital letters 192 to 222 (215, the multiplication sign, is
  no letter) to the code point 32 above.
\<close>

definition is_space :: "char \<Rightarrow> bool" where
  "is_space c =
     (let n = (of_char c :: nat)
      in (9 \<le> n \<and> n \<le> 13) \<or> (28 \<le> n \<and> n \<le> 32) \<or> n = 133 \<or> n = 160)"

definition strip :: "string \<Rightarrow> string" where
  "strip s = rev (dropWhile is_space (rev (dropWhile is_space s)))"

definition lower_char :: "char \<Rightarrow> char" where
  "lower_char c =
     (let n = (of_char c :: nat)
      in if (65 \<le> n \<and> n \<le> 90) \<or> (192 \<le> n \<and> n \<le> 222 \<and> n \<noteq> 215)
         then char_of (n + 32) else c)"

definition lower :: "string \<Rightarrow> string" where
  "lower s = map lower_char s"

text \<open>\<open>s.startswith(sub)\<close> and the substring test \<open>sub in s\<close>.\<close>

fun startswith :: "string \<Rightarrow> string \<Rightarrow> bool" where
  "startswith s [] = True"
| "startswith [] (c # sub) = False"
| "startswith (d # s) (c # sub) = (d = c \<and> startswith s sub)"

fun str_contains :: "string \<Rightarrow> string \<Rightarrow> bool" where
  "str_contains sub [] = (sub = [])"
| "str_contains sub (c # s) = (startswith (c # s) sub \<or> str_contains sub s)"

text \<open>
  What the test decides: \<open>sub\<close> occurs in \<open>s\<close> as a block of consecutive characters.
  This is the specification of \<open>str_contains\<close>, which the code is proved against.
\<close>

definition occurs_in :: "string \<Rightarrow> string \<Rightarrow> bool" where
  "occurs_in sub s = (\<exists>before after. s = before @ sub @ after)"

subsection \<open>JSON values of the transaction log\<close>

datatype jval =
    JStr string
  | JInt int
  | JFloat pyfloat
  | JObj "(string \<times> jval) list"

section \<open>The entity: \<open>Book\<close> (book.py)\<close>

record Book =
  title :: string
  author :: string
  price :: pyfloat
  stock :: int

text \<open>\<open>Book.__init__\<close>: raises what \<open>math.ceil\<close> raises, and then constructs nothing.\<close>

definition Book_init :: "string \<Rightarrow> string \<Rightarrow> pyfloat \<Rightarrow> int \<Rightarrow> py_error + Book" where
  "Book_init title' author' price' stock' =
     (case ceil_cents price' of
        Inl e \<Rightarrow> Inl e
      | Inr p \<Rightarrow>
          Inr \<lparr>title = strip title', author = strip author', price = p,
               stock = max 0 stock'\<rparr>)"

text \<open>\<open>Book.update_stock\<close>: the returned flag, and the book after the call.\<close>

definition Book_update_stock :: "Book \<Rightarrow> int \<Rightarrow> bool \<times> Book" where
  "Book_update_stock self quantity =
     (let new_stock = stock self + quantity
      in if new_stock < 0 then (False, self)
         else (True, self\<lparr>stock := new_stock\<rparr>))"

text \<open>\<open>Book.update_price\<close>: when \<open>math.ceil\<close> raises, the assignment does not happen.\<close>

definition Book_update_price :: "Book \<Rightarrow> pyfloat \<Rightarrow> py_error + Book" where
  "Book_update_price self new_price =
     (case ceil_cents new_price of
        Inl e \<Rightarrow> Inl e
      | Inr p \<Rightarrow> Inr (self\<lparr>price := p\<rparr>))"

text \<open>\<open>Book.calculate_value\<close>: \<open>math.ceil(self.price * self.stock * 100) / 100\<close>.\<close>

definition calculate_value :: "Book \<Rightarrow> py_error + pyfloat" where
  "calculate_value self =
     (case fmul_int (price self) (stock self) of
        Inl e \<Rightarrow> Inl e
      | Inr x \<Rightarrow> ceil_cents x)"

definition is_in_stock :: "Book \<Rightarrow> bool" where
  "is_in_stock self = (0 < stock self)"

definition is_low_stock :: "Book \<Rightarrow> int \<Rightarrow> bool" where
  "is_low_stock self threshold = (0 < stock self \<and> stock self \<le> threshold)"

text \<open>
  The dictionary of a book in the persisted document. \<open>Book.to_dict\<close> writes all four
  keys; a document read back may lack any of them, and \<open>Book.from_dict\<close> raises
  \<open>KeyError\<close> at the first one it misses, in the order title, author, price, stock.
  The model covers dictionaries whose values have the types of the persisted layout.
\<close>

record book_dict =
  title_entry :: "string option"
  author_entry :: "string option"
  price_entry :: "pyfloat option"
  stock_entry :: "int option"

definition to_dict :: "Book \<Rightarrow> book_dict" where
  "to_dict self =
     \<lparr>title_entry = Some (title self), author_entry = Some (author self),
      price_entry = Some (price self), stock_entry = Some (stock self)\<rparr>"

definition from_dict :: "book_dict \<Rightarrow> py_error + Book" where
  "from_dict data =
     (case title_entry data of
        None \<Rightarrow> Inl (KeyError ''title'')
      | Some t \<Rightarrow>
     (case author_entry data of
        None \<Rightarrow> Inl (KeyError ''author'')
      | Some a \<Rightarrow>
     (case price_entry data of
        None \<Rightarrow> Inl (KeyError ''price'')
      | Some p \<Rightarrow>
     (case stock_entry data of
        None \<Rightarrow> Inl (KeyError ''stock'')
      | Some s \<Rightarrow> Book_init t a p s))))"

section \<open>The repository: \<open>BookstoreInventory\<close> (inventory.py)\<close>

text \<open>
  \<open>self.books\<close> is a \<open>dict\<close>, which keeps its keys in insertion order: an association
  list with \<open>map_of\<close> for \<open>get\<close>, \<open>AList.update\<close> for item assignment (an existing key
  keeps its place, a new one goes last) and \<open>AList.delete\<close> for \<open>del\<close>. The books are
  held by the dictionary alone, so mutating a book in place is an update of its entry.
  \<open>self.transaction_log\<close> is a list of dictionaries, kept as JSON objects.
\<close>

record inventory =
  json_file :: string
  books :: "(string \<times> Book) list"
  transaction_log :: "jval list"

subsection \<open>Files\<close>

text \<open>
  A persisted document, as \<open>json.load\<close> returns it: the keys \<open>books\<close> and
  \<open>transaction_log\<close> may be missing (\<open>data.get\<close> then supplies an empty default), the
  other three are written by \<open>save_inventory\<close> and never read. A file either parses to
  a document or makes \<open>json.load\<close> raise. The file system maps a path to the file there.
\<close>

record document =
  books_entry :: "(string \<times> book_dict) list option"
  transaction_log_entry :: "jval list option"
  last_updated :: string
  total_books :: nat
  total_inventory_value :: pyfloat

datatype file_content = Unparsable | Parsed document

type_synonym filesystem = "string \<Rightarrow> file_content option"

definition path_exists :: "filesystem \<Rightarrow> string \<Rightarrow> bool" where
  "path_exists fs path = (fs path \<noteq> None)"

text \<open>\<open>os.rename\<close> of an existing file: the destination is replaced, the source is gone.\<close>

definition rename :: "filesystem \<Rightarrow> string \<Rightarrow> string \<Rightarrow> filesystem" where
  "rename fs src dst = (fs(dst := fs src))(src := None)"

subsection \<open>The ledger\<close>

text \<open>
  \<open>log_transaction\<close>; \<open>now\<close> is the text of \<open>datetime.now().isoformat()\<close> at the call.
\<close>

definition log_transaction ::
  "string \<Rightarrow> string \<Rightarrow> string \<Rightarrow> (string \<times> jval) list \<Rightarrow> inventory \<Rightarrow> inventory" where
  "log_transaction now action title' details self =
     self\<lparr>transaction_log := transaction_log self @
       [JObj [(''timestamp'', JStr now), (''action'', JStr action),
              (''title'', JStr title'), (''details'', JObj details)]]\<rparr>"

subsection \<open>Saving and loading\<close>

text \<open>
  \<open>save_inventory\<close> evaluates \<open>self.calculate_total_inventory_value()\<close> while it builds
  the document. The class \<open>BookstoreInventory\<close> has no base class and no
  \<open>__getattr__\<close>; it defines \<open>__init__\<close>, \<open>save_inventory\<close>, \<open>load_inventory\<close>,
  \<open>add_book\<close>, \<open>find_book\<close>, \<open>get_book_by_title\<close>, \<open>update_stock\<close>, \<open>sell_book\<close>,
  \<open>restock_book\<close>, \<open>update_price\<close>, \<open>remove_book\<close>, \<open>log_transaction\<close> and
  \<open>view_transaction_log\<close>, and its instances carry \<open>json_file\<close>, \<open>books\<close> and
  \<open>transaction_log\<close>. No file of the repository defines or assigns an attribute
  \<open>calculate_total_inventory_value\<close>, so looking it up raises \<open>AttributeError\<close>.
\<close>

definition calculate_total_inventory_value :: "inventory \<Rightarrow> py_error + pyfloat" where
  "calculate_total_inventory_value self =
     Inl (AttributeError ''calculate_total_inventory_value'')"

text \<open>
  \<open>save_inventory\<close>: the returned flag and the file system after the call. The rename
  comes first; an exception raised while the document is built is caught by the
  \<open>except\<close> clause, after the rename and before the file is opened for writing.
\<close>

definition save_inventory :: "string \<Rightarrow> inventory \<Rightarrow> filesystem \<Rightarrow> bool \<times> filesystem" where
  "save_inventory now self fs =
     (let fs1 = (if path_exists fs (json_file self)
                 then rename fs (json_file self) (json_file self @ ''.backup'')
                 else fs)
      in case calculate_total_inventory_value self of
           Inl e \<Rightarrow> (False, fs1)
         | Inr value \<Rightarrow>
             (True,
              fs1(json_file self \<mapsto> Parsed
                \<lparr>books_entry = Some (map (\<lambda>(t, book). (t, to_dict book)) (books self)),
                 transaction_log_entry = Some (transaction_log self),
                 last_updated = now,
                 total_books = length (books self),
                 total_inventory_value = value\<rparr>)))"

text \<open>
  The loop of \<open>load_inventory\<close> over \<open>books_data.items()\<close>: each book is stored as soon
  as it is built, and the first exception ends the loop with the books stored so far.
\<close>

fun load_books ::
  "(string \<times> book_dict) list \<Rightarrow> (string \<times> Book) list \<Rightarrow> py_error option \<times> (string \<times> Book) list" where
  "load_books [] bs = (None, bs)"
| "load_books ((t, book_data) # rest) bs =
     (case from_dict book_data of
        Inl e \<Rightarrow> (Some e, bs)
      | Inr book \<Rightarrow> load_books rest (AList.update t book bs))"

text \<open>
  \<open>load_inventory\<close>: the returned flag and the inventory after the call. Every exception
  is caught by the \<open>except\<close> clause, which returns \<open>False\<close> and restores nothing.
\<close>

definition load_inventory :: "inventory \<Rightarrow> filesystem \<Rightarrow> bool \<times> inventory" where
  "load_inventory self fs =
     (case fs (json_file self) of
        None \<Rightarrow> (True, self)
      | Some Unparsable \<Rightarrow> (False, self)
      | Some (Parsed data) \<Rightarrow>
          (let books_data = (case books_entry data of None \<Rightarrow> [] | Some d \<Rightarrow> d)
           in case load_books books_data (books self) of
                (Some e, bs) \<Rightarrow> (False, self\<lparr>books := bs\<rparr>)
              | (None, bs) \<Rightarrow>
                  (True,
                   self\<lparr>books := bs,
                        transaction_log :=
                          (case transaction_log_entry data of None \<Rightarrow> [] | Some l \<Rightarrow> l)\<rparr>)))"

text \<open>\<open>BookstoreInventory.__init__\<close>: empty books and log, then \<open>load_inventory\<close>.\<close>

definition BookstoreInventory_init :: "string \<Rightarrow> filesystem \<Rightarrow> inventory" where
  "BookstoreInventory_init path fs =
     snd (load_inventory \<lparr>json_file = path, books = [], transaction_log = []\<rparr> fs)"

subsection \<open>Operations on the books\<close>

text \<open>
  \<open>add_book\<close>: the book is constructed before the key is looked up, so what the
  constructor raises reaches the caller. The logged \<open>initial_stock\<close> is the argument,
  not the clamped stock of the book.
\<close>

definition add_book ::
  "string \<Rightarrow> inventory \<Rightarrow> string \<Rightarrow> string \<Rightarrow> pyfloat \<Rightarrow> int \<Rightarrow> py_error + (string \<times> inventory)" where
  "add_book now self title' author' price' stock' =
     (case Book_init title' author' price' stock' of
        Inl e \<Rightarrow> Inl e
      | Inr book \<Rightarrow>
          if map_of (books self) (title book) \<noteq> None then Inr (title book, self)
          else
            Inr (title book,
                 log_transaction now ''ADD_BOOK'' (title book)
                   [(''title'', JStr (title book)), (''author'', JStr (author book)),
                    (''price'', JFloat (price book)), (''initial_stock'', JInt stock')]
                   (self\<lparr>books := AList.update (title book) book (books self)\<rparr>)))"

text \<open>\<open>find_book\<close>: the loop over \<open>self.books.values()\<close>, appending to \<open>results\<close>.\<close>

fun find_loop :: "string \<Rightarrow> Book list \<Rightarrow> Book list \<Rightarrow> Book list" where
  "find_loop search_term [] results = results"
| "find_loop search_term (book # rest) results =
     find_loop search_term rest
       (if str_contains search_term (lower (title book)) \<or>
           str_contains search_term (lower (author book)) \<or>
           str_contains search_term (lower (title book))
        then results @ [book] else results)"

definition find_book :: "inventory \<Rightarrow> string \<Rightarrow> Book list" where
  "find_book self search_term =
     find_loop (strip (lower search_term)) (map snd (books self)) []"

definition get_book_by_title :: "inventory \<Rightarrow> string \<Rightarrow> Book option" where
  "get_book_by_title self title' = map_of (books self) title'"

text \<open>
  \<open>update_stock\<close>: the returned flag and the inventory after the call. A \<open>Book\<close> is
  always true in a condition, so \<open>not book\<close> holds exactly when the key is absent.
\<close>

definition update_stock ::
  "string \<Rightarrow> inventory \<Rightarrow> string \<Rightarrow> int \<Rightarrow> string \<Rightarrow> bool \<times> inventory" where
  "update_stock now self title' quantity_change reason =
     (case get_book_by_title self title' of
        None \<Rightarrow> (False, self)
      | Some book \<Rightarrow>
          (let old_stock = stock book
           in case Book_update_stock book quantity_change of
                (True, book') \<Rightarrow>
                  (True,
                   log_transaction now ''STOCK_UPDATE'' title'
                     [(''old_stock'', JInt old_stock), (''new_stock'', JInt (stock book')),
                      (''change'', JInt quantity_change), (''reason'', JStr reason)]
                     (self\<lparr>books := AList.update title' book' (books self)\<rparr>))
              | (False, book') \<Rightarrow> (False, self)))"

text \<open>\<open>update_price\<close>: what \<open>Book.update_price\<close> raises reaches the caller.\<close>

definition update_price ::
  "string \<Rightarrow> inventory \<Rightarrow> string \<Rightarrow> pyfloat \<Rightarrow> py_error + (bool \<times> inventory)" where
  "update_price now self title' new_price =
     (case get_book_by_title self title' of
        None \<Rightarrow> Inr (False, self)
      | Some book \<Rightarrow>
          (let old_price = price book
           in case Book_update_price book new_price of
                Inl e \<Rightarrow> Inl e
              | Inr book' \<Rightarrow>
                  Inr (True,
                       log_transaction now ''PRICE_UPDATE'' title'
                         [(''old_price'', JFloat old_price), (''new_price'', JFloat (price book'))]
                         (self\<lparr>books := AList.update title' book' (books self)\<rparr>))))"

text \<open>
  \<open>remove_book\<close>: \<open>confirm\<close> is the line that \<open>input\<close> returns; it is asked for, and
  read, only when the book has stock.
\<close>

definition remove_book :: "string \<Rightarrow> string \<Rightarrow> inventory \<Rightarrow> string \<Rightarrow> bool \<times> inventory" where
  "remove_book now confirm self title' =
     (case get_book_by_title self title' of
        None \<Rightarrow> (False, self)
      | Some book \<Rightarrow>
          (let removed =
                 (log_transaction now ''REMOVE_BOOK'' title'
                    [(''title'', JStr (title book)), (''author'', JStr (author book)),
                     (''final_stock'', JInt (stock book))]
                    self)
                 \<lparr>books := AList.delete title' (books self)\<rparr>
           in if 0 < stock book
              then (if lower confirm \<noteq> ''y'' then (False, self) else (True, removed))
              else (True, removed)))"

section \<open>Example data\<close>

text \<open>
  The book of the specification's scenarios, as \<open>add_book\<close> stores it, an inventory that
  holds it, and a file system with no file at all.
\<close>

definition dune :: Book where
  "dune = \<lparr>title = ''Dune'', author = ''Herbert'', price = float_lit (2101 / 100), stock = 3\<rparr>"

definition dune_inventory :: inventory where
  "dune_inventory = \<lparr>json_file = ''books.json'', books = [(''Dune'', dune)], transaction_log = []\<rparr>"

definition no_files :: filesystem where
  "no_files = (\<lambda>path. None)"

definition emma :: Book where
  "emma = \<lparr>title = ''Emma'', author = ''Austen'', price = float_lit (2101 / 100), stock = 2\<rparr>"

text \<open>
  A document in which the third book lacks its price, as a hand-edited or truncated
  file may; the first two books and the one ledger entry are well-formed.
\<close>

definition damaged_document :: document where
  "damaged_document =
     \<lparr>books_entry = Some
        [(''Dune'', to_dict dune),
         (''Emma'', to_dict emma),
         (''Ulysses'',
          \<lparr>title_entry = Some ''Ulysses'', author_entry = Some ''Joyce'',
           price_entry = None, stock_entry = Some 2\<rparr>)],
      transaction_log_entry = Some
        [JObj [(''timestamp'', JStr ''2024-01-01T00:00:00''), (''action'', JStr ''ADD_BOOK''),
               (''title'', JStr ''Dune''),
               (''details'',
                JObj [(''title'', JStr ''Dune''), (''author'', JStr ''Herbert''),
                      (''price'', JFloat (float_lit (2101 / 100))),
                      (''initial_stock'', JInt 3)])]],
      last_updated = ''2024-01-02T00:00:00'',
      total_books = 3,
      total_inventory_value = float_lit (6303 / 100)\<rparr>"

section \<open>Properties of the float model\<close>

subsection \<open>Exponent and rounding\<close>

lemma quotient_of_pos_frac:
  assumes "0 < x" "quotient_of x = (a, b)"
  shows "0 < a" "0 < b" "x = of_int a / of_int b"
proof -
  show b: "0 < b" using assms(2) quotient_of_denom_pos by blast
  show eq: "x = of_int a / of_int b" using assms(2) quotient_of_div by blast
  show "0 < a" using assms(1) b eq
    by (simp add: zero_less_divide_iff)
qed

lemma bitlen_powi_bounds:
  assumes "0 < (a::int)"
  shows "(2::rat) powi (bitlen a - 1) \<le> of_int a" "of_int a < (2::rat) powi (bitlen a)"
proof -
  have b: "2 ^ nat (bitlen a - 1) \<le> a" "a < 2 ^ nat (bitlen a)"
    using bitlen_bounds[OF assms] by auto
  have ge1: "1 \<le> bitlen a" using assms by (simp add: bitlen_alt_def)
  have "(2::rat) powi (bitlen a - 1) = of_int (2 ^ nat (bitlen a - 1))"
    using ge1 by (simp add: power_int_def)
  also have "\<dots> \<le> of_int a" using b(1) by (simp only: of_int_le_iff)
  finally show "(2::rat) powi (bitlen a - 1) \<le> of_int a" .
  have "(of_int a :: rat) < of_int (2 ^ nat (bitlen a))" using b(2) by (simp only: of_int_less_iff)
  also have "\<dots> = 2 powi (bitlen a)" using ge1 by (simp add: power_int_def)
  finally show "of_int a < (2::rat) powi (bitlen a)" .
qed

lemma ilog2_bounds:
  assumes "0 < x"
  shows "2 powi (ilog2 x) \<le> x" "x < 2 powi (ilog2 x + 1)"
proof -
  obtain a b where q: "quotient_of x = (a, b)" by (cases "quotient_of x")
  note f = quotient_of_pos_frac[OF assms q]
  let ?d = "bitlen a - bitlen b"
  have a: "(2::rat) powi (bitlen a - 1) \<le> of_int a" "of_int a < (2::rat) powi (bitlen a)"
    using bitlen_powi_bounds[OF f(1)] by auto
  have b: "(2::rat) powi (bitlen b - 1) \<le> of_int b" "of_int b < (2::rat) powi (bitlen b)"
    using bitlen_powi_bounds[OF f(2)] by auto
  have bpos: "(0::rat) < of_int b" using f(2) by simp
  have lo: "(2::rat) powi (?d - 1) \<le> x"
  proof -
    have "(2::rat) powi (?d - 1) * of_int b \<le> 2 powi (?d - 1) * 2 powi (bitlen b)"
      using b(2) by (intro mult_left_mono) auto
    also have "\<dots> = 2 powi (bitlen a - 1)"
      by (simp add: power_int_add[symmetric])
    also have "\<dots> \<le> of_int a" by (rule a(1))
    finally show ?thesis using bpos f(3) by (simp add: pos_le_divide_eq)
  qed
  have hi: "x < (2::rat) powi (?d + 1)"
  proof -
    have "of_int a < (2::rat) powi (bitlen a)" by (rule a(2))
    also have "\<dots> = 2 powi (?d + 1) * 2 powi (bitlen b - 1)"
      by (simp add: power_int_add[symmetric])
    also have "\<dots> \<le> 2 powi (?d + 1) * of_int b"
      using b(1) by (intro mult_left_mono) auto
    finally show ?thesis using bpos f(3) by (simp add: pos_divide_less_eq)
  qed
  have il: "ilog2 x = (if 2 powi ?d \<le> x then ?d else ?d - 1)"
    by (simp add: ilog2_def q)
  show "2 powi (ilog2 x) \<le> x" using lo by (simp add: il)
  show "x < 2 powi (ilog2 x + 1)" using hi by (simp add: il not_le)
qed

lemma powi2_mono: "e \<le> e' \<Longrightarrow> (2::rat) powi e \<le> 2 powi e'"
  by (rule power_int_increasing) auto

lemma ilog2_unique:
  assumes "0 < x" "2 powi e \<le> x" "x < 2 powi (e + 1)"
  shows "ilog2 x = e"
proof (rule ccontr)
  assume ne: "ilog2 x \<noteq> e"
  note b = ilog2_bounds[OF assms(1)]
  show False
  proof (cases "ilog2 x < e")
    case True
    then have "(2::rat) powi (ilog2 x + 1) \<le> 2 powi e" by (intro powi2_mono) simp
    with b(2) assms(2) show False by simp
  next
    case False
    with ne have "(2::rat) powi (e + 1) \<le> 2 powi (ilog2 x)" by (intro powi2_mono) simp
    with b(1) assms(3) show False by simp
  qed
qed


lemma round_half_even_cert:
  assumes "of_int m - 1 / 2 < x" "x < of_int m + 1 / 2"
  shows "round_half_even x = m"
proof -
  have "\<lfloor>x\<rfloor> = m \<or> \<lfloor>x\<rfloor> = m - 1"
    using assms by (simp add: floor_eq_iff) linarith
  then show ?thesis
  proof
    assume f: "\<lfloor>x\<rfloor> = m"
    then show ?thesis using assms by (simp add: round_half_even_def Let_def f)
  next
    assume f: "\<lfloor>x\<rfloor> = m - 1"
    then show ?thesis using assms by (simp add: round_half_even_def Let_def f)
  qed
qed

lemma round_half_even_bounds:
  "x - 1 / 2 \<le> of_int (round_half_even x)" "of_int (round_half_even x) \<le> x + 1 / 2"
proof -
  define f where "f = \<lfloor>x\<rfloor>"
  have f: "of_int f \<le> x" "x < of_int f + 1" unfolding f_def by linarith+
  have r: "round_half_even x =
     (if x - of_int f < 1 / 2 then f else if 1 / 2 < x - of_int f then f + 1
      else if even f then f else f + 1)"
    by (simp add: round_half_even_def Let_def f_def)
  show "x - 1 / 2 \<le> of_int (round_half_even x)"
    unfolding r using f by (auto split: if_splits)
  show "of_int (round_half_even x) \<le> x + 1 / 2"
    unfolding r using f by (auto split: if_splits)
qed

lemma round_half_even_nonneg: "0 \<le> x \<Longrightarrow> 0 \<le> round_half_even x"
proof -
  assume "0 \<le> x"
  then have "0 \<le> \<lfloor>x\<rfloor>" by simp
  then show ?thesis by (simp add: round_half_even_def Let_def)
qed

lemma powi2_pos: "(0::rat) < 2 powi q"
  by (simp add: power_int_def)

lemma powi2_strict_mono: "e < e' \<Longrightarrow> (2::rat) powi e < 2 powi e'"
  by (rule power_int_strict_increasing) auto

lemma double_limit_powi: "double_limit = 2 powi 1024"
  unfolding double_limit_def by (simp only: power_int_numeral)

lemma below_double_limit:
  assumes "y < 2 powi k" "k \<le> 1024"
  shows "y < double_limit"
proof -
  have "(2::rat) powi k \<le> 2 powi 1024" using assms(2) by (rule powi2_mono)
  then show ?thesis using assms(1) by (simp only: double_limit_powi)
qed

lemma round_double_magnitude:
  assumes "x \<noteq> 0"
  defines "q \<equiv> max (ilog2 \<bar>x\<bar> - 52) (- 1074)"
  defines "y \<equiv> of_int (round_half_even (\<bar>x\<bar> / 2 powi q)) * 2 powi q"
  shows "0 \<le> y" "y \<le> \<bar>x\<bar> + 2 powi q / 2"
    "round_double x = (if double_limit \<le> y then (if 0 < x then PInf else NInf) else Fin (sgn x * y))"
proof -
  have "0 \<le> \<bar>x\<bar> / 2 powi q" using powi2_pos[of q] by simp
  then have "0 \<le> round_half_even (\<bar>x\<bar> / 2 powi q)" by (rule round_half_even_nonneg)
  then show "0 \<le> y" unfolding y_def using powi2_pos[of q] by simp
  have "of_int (round_half_even (\<bar>x\<bar> / 2 powi q)) \<le> \<bar>x\<bar> / 2 powi q + 1 / 2"
    by (rule round_half_even_bounds)
  then have "y \<le> (\<bar>x\<bar> / 2 powi q + 1 / 2) * 2 powi q"
    unfolding y_def using powi2_pos[of q] by (intro mult_right_mono) auto
  also have "\<dots> = \<bar>x\<bar> + 2 powi q / 2"
    using powi2_pos[of q] by (simp add: field_simps)
  finally show "y \<le> \<bar>x\<bar> + 2 powi q / 2" .
  show "round_double x = (if double_limit \<le> y then (if 0 < x then PInf else NInf) else Fin (sgn x * y))"
    unfolding round_double_def Let_def q_def y_def using assms(1) by (simp only: if_False)
qed

lemma double_limit_pos: "0 < double_limit"
  by (simp only: double_limit_powi powi2_pos)

lemma round_double_zero: "round_double 0 = Fin 0"
  by (simp add: round_double_def)

lemma round_double_finite_bound:
  assumes "round_double x = Fin y"
  shows "\<bar>y\<bar> < double_limit"
proof (cases "x = 0")
  case True
  then have "y = 0" using assms by (simp add: round_double_zero)
  then show ?thesis using double_limit_pos by simp
next
  case False
  define q where "q = max (ilog2 \<bar>x\<bar> - 52) (- 1074)"
  define z where "z = rat_of_int (round_half_even (\<bar>x\<bar> / 2 powi q)) * 2 powi q"
  note m = round_double_magnitude[OF False, folded q_def, folded z_def]
  have s: "\<bar>sgn x\<bar> = 1" using False by (simp add: sgn_if)
  have lim: "\<not> double_limit \<le> z"
  proof
    assume "double_limit \<le> z"
    then have "round_double x = (if 0 < x then PInf else NInf)" by (simp add: m(3))
    then show False using assms by (simp split: if_splits)
  qed
  then have "y = sgn x * z" using assms by (simp add: m(3))
  then have "\<bar>y\<bar> = z" using m(1) s by (simp add: abs_mult)
  then show ?thesis using lim by simp
qed

lemma round_double_nonneg:
  assumes "0 \<le> x" "round_double x = Fin y"
  shows "0 \<le> y"
proof (cases "x = 0")
  case True
  then show ?thesis using assms by (simp add: round_double_zero)
next
  case False
  define q where "q = max (ilog2 \<bar>x\<bar> - 52) (- 1074)"
  define z where "z = rat_of_int (round_half_even (\<bar>x\<bar> / 2 powi q)) * 2 powi q"
  note m = round_double_magnitude[OF False, folded q_def, folded z_def]
  have s: "sgn x = 1" using False assms(1) by (simp add: sgn_if)
  have "y = sgn x * z" using assms(2) by (simp add: m(3) split: if_splits)
  then show ?thesis using m(1) s by simp
qed

lemma round_double_nonneg_cases:
  assumes "0 \<le> x"
  shows "round_double x = PInf \<or> (\<exists>y. round_double x = Fin y \<and> 0 \<le> y)"
proof (cases "x = 0")
  case True
  then show ?thesis by (simp add: round_double_zero)
next
  case False
  define q where "q = max (ilog2 \<bar>x\<bar> - 52) (- 1074)"
  define z where "z = rat_of_int (round_half_even (\<bar>x\<bar> / 2 powi q)) * 2 powi q"
  note m = round_double_magnitude[OF False, folded q_def, folded z_def]
  have s: "sgn x = 1" "0 < x" using False assms(1) by (simp_all add: sgn_if)
  show ?thesis using m(1) s by (simp add: m(3))
qed

lemma round_double_bounded:
  assumes "\<bar>x\<bar> \<le> 2 powi k" "- 1074 \<le> k" "k + 1 \<le> 1024"
  shows "\<exists>y. round_double x = Fin y"
proof (cases "x = 0")
  case True
  then show ?thesis by (simp add: round_double_zero)
next
  case False
  define q where "q = max (ilog2 \<bar>x\<bar> - 52) (- 1074)"
  define y where "y = rat_of_int (round_half_even (\<bar>x\<bar> / 2 powi q)) * 2 powi q"
  note m = round_double_magnitude[OF False, folded q_def, folded y_def]
  define L :: rat where "L = 2 powi k"
  have Lpos: "0 < L" unfolding L_def by (rule powi2_pos)
  have pos: "0 < \<bar>x\<bar>" using False by simp
  have "(2::rat) powi (ilog2 \<bar>x\<bar> - 52) \<le> 2 powi (ilog2 \<bar>x\<bar>)" by (rule powi2_mono) simp
  also have "\<dots> \<le> \<bar>x\<bar>" by (rule ilog2_bounds(1)[OF pos])
  finally have a: "(2::rat) powi (ilog2 \<bar>x\<bar> - 52) \<le> L" using assms(1) unfolding L_def by simp
  have b: "(2::rat) powi (- 1074) \<le> L" unfolding L_def using assms(2) by (rule powi2_mono)
  have ql: "(2::rat) powi q \<le> L" using a b by (simp add: q_def max_def)
  have "y \<le> \<bar>x\<bar> + 2 powi q / 2" by (rule m(2))
  also have "\<dots> \<le> L + L / 2" using assms(1) ql unfolding L_def[symmetric] by simp
  also have "\<dots> < 2 * L" using Lpos by simp
  also have "2 * L = 2 powi (k + 1)"
    unfolding L_def by (simp add: power_int_add)
  finally have "y < double_limit" using assms(3) by (rule below_double_limit)
  then have "\<not> double_limit \<le> y" by simp
  then show ?thesis by (simp add: m(3))
qed

lemma round_half_even_tie:
  assumes "x = of_int m - 1 / 2 \<or> x = of_int m + 1 / 2" "even m"
  shows "round_half_even x = m"
proof -
  from assms(1) show ?thesis
  proof
    assume x: "x = of_int m - 1 / 2"
    have "\<lfloor>x\<rfloor> = m - 1" unfolding x by (simp add: floor_eq_iff)
    then show ?thesis using assms(2) by (simp add: round_half_even_def Let_def x)
  next
    assume x: "x = of_int m + 1 / 2"
    have "\<lfloor>x\<rfloor> = m" unfolding x by (simp add: floor_eq_iff)
    then show ?thesis using assms(2) by (simp add: round_half_even_def Let_def x)
  qed
qed

lemma round_double_eval:
  assumes "0 < x" "2 powi e \<le> x" "x < 2 powi (e + 1)"
    and "q = max (e - 52) (- 1074)"
    and "round_half_even (x / 2 powi q) = m"
    and "of_int m * 2 powi q < (2::rat) powi k" "k \<le> 1024"
  shows "round_double x = Fin (of_int m * 2 powi q)"
proof -
  have e: "ilog2 \<bar>x\<bar> = e" using assms(1-3) by (simp add: ilog2_unique)
  have m: "round_half_even (\<bar>x\<bar> / 2 powi q) = m"
    using assms(1,5) by simp
  have lim: "\<not> double_limit \<le> of_int m * 2 powi q"
    using below_double_limit[OF assms(6,7)] by simp
  have "round_double x = Fin (sgn x * (of_int m * 2 powi q))"
    unfolding round_double_def Let_def e assms(4)[symmetric] m
    using assms(1) lim by (simp only: if_False) simp
  then show ?thesis using assms(1) by simp
qed

lemma round_double_100: "round_double 100 = Fin 100"
proof -
  have r: "round_half_even (100 / 2 powi (- 46)) = 7036874417766400"
    by (rule round_half_even_cert) simp_all
  show ?thesis
    using round_double_eval[of 100 6 "- 46" 7036874417766400 64] r by simp
qed

lemma float_of_int_100: "float_of_int 100 = Inr (Fin 100)"
  using round_double_100 by (simp add: float_of_int_def)

lemma fmul_int_100: "fmul_int x 100 = Inr (fmul x (Fin 100))"
  by (simp add: fmul_int_def float_of_int_100)

lemma int_div_100_finite:
  assumes "int_div_100 n = Inr p"
  shows "\<exists>r. p = Fin r"
  using assms by (cases "round_double (rat_of_int n / 100)") (auto simp: int_div_100_def)

lemma int_div_100_nonneg:
  assumes "0 \<le> n" "int_div_100 n = Inr p"
  shows "\<exists>r. p = Fin r \<and> 0 \<le> r"
proof -
  have "0 \<le> rat_of_int n / 100" using assms(1) by simp
  then show ?thesis using assms(2) round_double_nonneg[of "rat_of_int n / 100"]
    by (cases "round_double (rat_of_int n / 100)") (auto simp: int_div_100_def)
qed

lemma powi2_ge_one: "0 \<le> k \<Longrightarrow> (1::rat) \<le> 2 powi k"
  using powi2_mono[of 0 k] by simp

lemma double_limit_quarter: "double_limit = 4 * 2 powi 1022"
proof -
  have "(2::rat) powi (1022 + 2) = 2 powi 1022 * 2 powi 2"
    by (rule power_int_add) simp
  moreover have "(1022::int) + 2 = 1024" by simp
  moreover have "(2::rat) powi 2 = 4" by simp
  ultimately show ?thesis by (simp only: double_limit_powi mult.commute)
qed

lemma int_div_100_total:
  assumes "\<bar>y\<bar> < double_limit"
  shows "\<exists>r. int_div_100 \<lceil>y\<rceil> = Inr (Fin r)"
proof -
  define L :: rat where "L = 2 powi 1022"
  have L1: "1 \<le> L" unfolding L_def by (rule powi2_ge_one) simp
  have dl: "double_limit = 4 * L" unfolding L_def by (rule double_limit_quarter)
  have "\<bar>rat_of_int \<lceil>y\<rceil>\<bar> \<le> \<bar>y\<bar> + 1" by linarith
  then have "\<bar>rat_of_int \<lceil>y\<rceil>\<bar> \<le> 4 * L + 1" using assms dl by simp
  then have "\<bar>rat_of_int \<lceil>y\<rceil> / 100\<bar> \<le> (4 * L + 1) / 100" by simp
  also have "\<dots> \<le> L" using L1 by simp
  finally have "\<bar>rat_of_int \<lceil>y\<rceil> / 100\<bar> \<le> 2 powi 1022" unfolding L_def .
  then obtain r where "round_double (rat_of_int \<lceil>y\<rceil> / 100) = Fin r"
    using round_double_bounded[of "rat_of_int \<lceil>y\<rceil> / 100" 1022] by auto
  then show ?thesis by (simp add: int_div_100_def)
qed

text \<open>
  \<open>math.ceil(x * 100) / 100\<close> on a finite float succeeds exactly when the product with
  100 is finite.
\<close>

lemma ceil_cents_Fin_iff:
  "(\<exists>p. ceil_cents (Fin a) = Inr p) \<longleftrightarrow> (\<exists>y. round_double (a * 100) = Fin y)"
proof
  assume "\<exists>p. ceil_cents (Fin a) = Inr p"
  then show "\<exists>y. round_double (a * 100) = Fin y"
    by (cases "round_double (a * 100)") (auto simp: ceil_cents_def fmul_int_100)
next
  assume "\<exists>y. round_double (a * 100) = Fin y"
  then obtain y where y: "round_double (a * 100) = Fin y" by blast
  then have "\<bar>y\<bar> < double_limit" by (rule round_double_finite_bound)
  then obtain r where "int_div_100 \<lceil>y\<rceil> = Inr (Fin r)" using int_div_100_total by blast
  then show "\<exists>p. ceil_cents (Fin a) = Inr p"
    by (simp add: ceil_cents_def fmul_int_100 y)
qed

lemma ceil_cents_total:
  assumes "\<bar>a\<bar> \<le> 2 powi 1000"
  shows "\<exists>r. ceil_cents (Fin a) = Inr (Fin r)"
proof -
  have "\<bar>a * 100\<bar> = \<bar>a\<bar> * 100" by (simp add: abs_mult)
  also have "\<dots> \<le> 2 powi 1000 * 100" using assms by simp
  also have "\<dots> \<le> 2 powi 1000 * 2 powi 7"
    by (intro mult_left_mono) (simp_all add: powi2_pos less_imp_le)
  also have "\<dots> = 2 powi (1000 + 7)" by (rule power_int_add[symmetric]) simp
  finally have "\<bar>a * 100\<bar> \<le> 2 powi (1000 + 7)" .
  then obtain y where y: "round_double (a * 100) = Fin y"
    using round_double_bounded[of "a * 100" "1000 + 7"] by auto
  then have "\<bar>y\<bar> < double_limit" by (rule round_double_finite_bound)
  then obtain r where "int_div_100 \<lceil>y\<rceil> = Inr (Fin r)" using int_div_100_total by blast
  then show ?thesis by (simp add: ceil_cents_def fmul_int_100 y)
qed

lemma ceil_cents_finite:
  assumes "ceil_cents x = Inr p"
  shows "\<exists>r. p = Fin r"
  using assms int_div_100_finite
  by (auto simp: ceil_cents_def fmul_int_100 split: sum.splits)

lemma ceil_cents_nonneg:
  assumes "0 \<le> a" "ceil_cents (Fin a) = Inr p"
  shows "\<exists>r. p = Fin r \<and> 0 \<le> r"
proof -
  from assms(2) obtain y where y: "round_double (a * 100) = Fin y"
    and d: "int_div_100 \<lceil>y\<rceil> = Inr p"
    by (cases "round_double (a * 100)") (auto simp: ceil_cents_def fmul_int_100)
  have "0 \<le> a * 100" using assms(1) by simp
  then have "0 \<le> y" using y by (rule round_double_nonneg)
  then have "0 \<le> \<lceil>y\<rceil>" by simp
  then show ?thesis using d by (rule int_div_100_nonneg)
qed

lemma ceil_cents_special:
  "ceil_cents PInf = Inl OverflowError" "ceil_cents NInf = Inl OverflowError"
  "ceil_cents NaN = Inl ValueError"
  by (simp_all add: ceil_cents_def fmul_int_100)

subsection \<open>The floats of the Dune scenario\<close>

lemma round_21_004: "round_double (5251 / 250) = Fin (5912100410830619 / 281474976710656)"
proof -
  have r: "round_half_even (5251 / 250 / 2 powi (- 48)) = 5912100410830619"
    by (rule round_half_even_cert) simp_all
  show ?thesis
    using round_double_eval[of "5251 / 250" 4 "- 48" 5912100410830619 64] r by simp
qed

lemma round_21_004_times_100: "round_double (147802510270765475 / 70368744177664) = Fin (4618828445961421 / 2199023255552)"
proof -
  have r: "round_half_even (147802510270765475 / 70368744177664 / 2 powi (- 41)) = 4618828445961421"
    by (rule round_half_even_cert) simp_all
  show ?thesis
    using round_double_eval[of "147802510270765475 / 70368744177664" 11 "- 41" 4618828445961421 64] r by simp
qed

lemma round_21_01: "round_double (2101 / 100) = Fin (5913789260690883 / 281474976710656)"
proof -
  have r: "round_half_even (2101 / 100 / 2 powi (- 48)) = 5913789260690883"
    by (rule round_half_even_cert) simp_all
  show ?thesis
    using round_double_eval[of "2101 / 100" 4 "- 48" 5913789260690883 64] r by simp
qed

lemma round_3: "round_double (3) = Fin (3)"
proof -
  have r: "round_half_even (3 / 2 powi (- 51)) = 6755399441055744"
    by (rule round_half_even_cert) simp_all
  show ?thesis
    using round_double_eval[of "3" 1 "- 51" 6755399441055744 64] r by simp
qed

lemma round_21_01_times_3: "round_double (17741367782072649 / 281474976710656) = Fin (2217670972759081 / 35184372088832)"
proof -
  have r: "round_half_even (17741367782072649 / 281474976710656 / 2 powi (- 47)) = 8870683891036324"
    by (rule round_half_even_tie) simp_all
  show ?thesis
    using round_double_eval[of "17741367782072649 / 281474976710656" 5 "- 47" 8870683891036324 64] r by simp
qed

lemma round_63_03_times_100: "round_double (55441774318977025 / 8796093022208) = Fin (6303)"
proof -
  have r: "round_half_even (55441774318977025 / 8796093022208 / 2 powi (- 40)) = 6930221789872128"
    by (rule round_half_even_cert) simp_all
  show ?thesis
    using round_double_eval[of "55441774318977025 / 8796093022208" 12 "- 40" 6930221789872128 64] r by simp
qed

lemma round_63_03: "round_double (6303 / 100) = Fin (2217670972759081 / 35184372088832)"
proof -
  have r: "round_half_even (6303 / 100 / 2 powi (- 47)) = 8870683891036324"
    by (rule round_half_even_cert) simp_all
  show ?thesis
    using round_double_eval[of "6303 / 100" 5 "- 47" 8870683891036324 64] r by simp
qed

lemma ceil_2100_4: "\<lceil>4618828445961421 / 2199023255552 :: rat\<rceil> = 2101"
  by (rule ceiling_unique) simp_all

lemma ceil_cents_21_004: "ceil_cents (Fin (5912100410830619 / 281474976710656)) = Inr (Fin (5913789260690883 / 281474976710656))"
  by (simp add: ceil_cents_def fmul_int_100 round_21_004_times_100 ceil_2100_4 int_div_100_def round_21_01)

lemma float_of_int_3: "float_of_int 3 = Inr (Fin 3)"
  using round_3 by (simp add: float_of_int_def)

lemma ceil_cents_63_03: "ceil_cents (Fin (2217670972759081 / 35184372088832)) = Inr (Fin (2217670972759081 / 35184372088832))"
  by (simp add: ceil_cents_def fmul_int_100 round_63_03_times_100 int_div_100_def round_63_03)

lemma calculate_value_dune:
  "calculate_value \<lparr>title = ''Dune'', author = ''Herbert'', price = Fin (5913789260690883 / 281474976710656), stock = 3\<rparr>
     = Inr (Fin (2217670972759081 / 35184372088832))"
  by (simp add: calculate_value_def fmul_int_def float_of_int_3 round_21_01_times_3 ceil_cents_63_03)

lemma strip_Dune: "strip ''Dune'' = ''Dune''" "strip ''Herbert'' = ''Herbert''"
  by (simp_all add: strip_def is_space_def)

section \<open>The claims\<close>

text \<open>
  C6. \<open>add_book("Dune", "Herbert", 21.004, 3)\<close> on an empty inventory stores the book
  \<open>dune\<close>, whose price is the float 21.01 (the product of the float 21.004 with 100 is
  the float 2100.4, whose ceiling is 2101), and \<open>calculate_value\<close> of that book is the
  float 63.03: 21.01 times 3 lies exactly half way between two floats and rounds to the
  float 63.03, whose product with 100 rounds to 6303.
\<close>

theorem dune_scenario:
  "add_book now \<lparr>json_file = path, books = [], transaction_log = []\<rparr>
       ''Dune'' ''Herbert'' (float_lit (21004 / 1000)) 3 =
     Inr (''Dune'',
          \<lparr>json_file = path, books = [(''Dune'', dune)],
           transaction_log =
             [JObj [(''timestamp'', JStr now), (''action'', JStr ''ADD_BOOK''),
                    (''title'', JStr ''Dune''),
                    (''details'',
                     JObj [(''title'', JStr ''Dune''), (''author'', JStr ''Herbert''),
                           (''price'', JFloat (float_lit (2101 / 100))),
                           (''initial_stock'', JInt 3)])]]\<rparr>) \<and>
   price dune = float_lit (2101 / 100) \<and>
   calculate_value dune = Inr (float_lit (6303 / 100))"
proof (intro conjI)
  have b: "Book_init ''Dune'' ''Herbert'' (float_lit (21004 / 1000)) 3 = Inr dune"
    by (simp add: Book_init_def float_lit_def round_21_004 round_21_01 ceil_cents_21_004
        strip_Dune dune_def)
  have d: "title dune = ''Dune''" "author dune = ''Herbert''" "price dune = float_lit (2101 / 100)"
    by (simp_all add: dune_def)
  show "add_book now \<lparr>json_file = path, books = [], transaction_log = []\<rparr>
       ''Dune'' ''Herbert'' (float_lit (21004 / 1000)) 3 =
     Inr (''Dune'',
          \<lparr>json_file = path, books = [(''Dune'', dune)],
           transaction_log =
             [JObj [(''timestamp'', JStr now), (''action'', JStr ''ADD_BOOK''),
                    (''title'', JStr ''Dune''),
                    (''details'',
                     JObj [(''title'', JStr ''Dune''), (''author'', JStr ''Herbert''),
                           (''price'', JFloat (float_lit (2101 / 100))),
                           (''initial_stock'', JInt 3)])]]\<rparr>)"
    unfolding add_book_def b by (simp add: d log_transaction_def)
  show "price dune = float_lit (2101 / 100)" by (rule d(3))
  show "calculate_value dune = Inr (float_lit (6303 / 100))"
    using calculate_value_dune by (simp add: dune_def float_lit_def round_21_01 round_63_03)
qed

text \<open>
  C4. \<open>update_stock(key, delta, reason)\<close> returns \<open>False\<close> and changes nothing when the
  key is absent, and when the stock plus \<open>delta\<close> would be negative; otherwise it returns
  \<open>True\<close>, the book of that key has the stock plus \<open>delta\<close>, every other key has the
  book it had, and the ledger has one more entry, a \<open>STOCK_UPDATE\<close> with the old stock,
  the new stock, the change and the reason.
\<close>

theorem update_stock_contract:
  "(get_book_by_title self key = None \<longrightarrow>
      update_stock now self key delta reason = (False, self)) \<and>
   (\<forall>book. get_book_by_title self key = Some book \<longrightarrow>
      (stock book + delta < 0 \<longrightarrow>
         update_stock now self key delta reason = (False, self)) \<and>
      (0 \<le> stock book + delta \<longrightarrow>
         update_stock now self key delta reason =
           (True,
            self\<lparr>books := AList.update key (book\<lparr>stock := stock book + delta\<rparr>) (books self),
                transaction_log := transaction_log self @
                  [JObj [(''timestamp'', JStr now), (''action'', JStr ''STOCK_UPDATE''),
                         (''title'', JStr key),
                         (''details'',
                          JObj [(''old_stock'', JInt (stock book)),
                                (''new_stock'', JInt (stock book + delta)),
                                (''change'', JInt delta), (''reason'', JStr reason)])]]\<rparr>) \<and>
         (\<forall>k. get_book_by_title (snd (update_stock now self key delta reason)) k =
               (if k = key then Some (book\<lparr>stock := stock book + delta\<rparr>)
                else get_book_by_title self k))))"
proof (intro conjI allI impI)
  assume "get_book_by_title self key = None"
  then show "update_stock now self key delta reason = (False, self)"
    by (simp add: update_stock_def)
next
  fix book
  assume "get_book_by_title self key = Some book" "stock book + delta < 0"
  then show "update_stock now self key delta reason = (False, self)"
    by (simp add: update_stock_def Book_update_stock_def)
next
  fix book
  assume a: "get_book_by_title self key = Some book" "0 \<le> stock book + delta"
  then show r: "update_stock now self key delta reason =
           (True,
            self\<lparr>books := AList.update key (book\<lparr>stock := stock book + delta\<rparr>) (books self),
                transaction_log := transaction_log self @
                  [JObj [(''timestamp'', JStr now), (''action'', JStr ''STOCK_UPDATE''),
                         (''title'', JStr key),
                         (''details'',
                          JObj [(''old_stock'', JInt (stock book)),
                                (''new_stock'', JInt (stock book + delta)),
                                (''change'', JInt delta), (''reason'', JStr reason)])]]\<rparr>)"
    by (simp add: update_stock_def Book_update_stock_def log_transaction_def Let_def)
  fix k
  show "get_book_by_title (snd (update_stock now self key delta reason)) k =
               (if k = key then Some (book\<lparr>stock := stock book + delta\<rparr>)
                else get_book_by_title self k)"
    by (simp add: r get_book_by_title_def update_conv')
qed

theorem update_stock_contract_witness:
  "get_book_by_title dune_inventory ''Emma'' = None \<and>
   update_stock ''2024-01-01T00:00:00'' dune_inventory ''Emma'' 1 ''gift'' = (False, dune_inventory) \<and>
   get_book_by_title dune_inventory ''Dune'' = Some dune \<and>
   stock dune + (- 5) < 0 \<and>
   update_stock ''2024-01-01T00:00:00'' dune_inventory ''Dune'' (- 5) ''oversell'' = (False, dune_inventory) \<and>
   0 \<le> stock dune + 2 \<and>
   update_stock ''2024-01-01T00:00:00'' dune_inventory ''Dune'' 2 ''restock'' =
     (True,
      dune_inventory\<lparr>books := [(''Dune'', dune\<lparr>stock := 5\<rparr>)],
        transaction_log :=
          [JObj [(''timestamp'', JStr ''2024-01-01T00:00:00''), (''action'', JStr ''STOCK_UPDATE''),
                 (''title'', JStr ''Dune''),
                 (''details'',
                  JObj [(''old_stock'', JInt 3), (''new_stock'', JInt 5),
                        (''change'', JInt 2), (''reason'', JStr ''restock'')])]]\<rparr>)"
proof -
  have a: "get_book_by_title dune_inventory ''Emma'' = None"
    by (simp add: get_book_by_title_def dune_inventory_def)
  have b: "get_book_by_title dune_inventory ''Dune'' = Some dune"
    by (simp add: get_book_by_title_def dune_inventory_def)
  have s: "stock dune = 3" by (simp add: dune_def)
  have bs: "books dune_inventory = [(''Dune'', dune)]" "transaction_log dune_inventory = []"
    by (simp_all add: dune_inventory_def)
  show ?thesis
    using update_stock_contract[of dune_inventory "''Emma''" "''2024-01-01T00:00:00''" 1 "''gift''"]
      update_stock_contract[of dune_inventory "''Dune''" "''2024-01-01T00:00:00''" "- 5" "''oversell''"]
      update_stock_contract[of dune_inventory "''Dune''" "''2024-01-01T00:00:00''" 2 "''restock''"]
    by (simp add: a b s bs)
qed

lemma remove_book_absent:
  "get_book_by_title self key = None \<Longrightarrow> remove_book now confirm self key = (False, self)"
  by (simp add: remove_book_def)

lemma remove_book_refused:
  "get_book_by_title self key = Some book \<Longrightarrow> 0 < stock book \<Longrightarrow> lower confirm \<noteq> ''y'' \<Longrightarrow>
   remove_book now confirm self key = (False, self)"
  by (simp add: remove_book_def Let_def)

lemma remove_book_done:
  assumes "get_book_by_title self key = Some book" "stock book \<le> 0 \<or> lower confirm = ''y''"
  shows "remove_book now confirm self key =
           (True,
            self\<lparr>books := AList.delete key (books self),
                 transaction_log := transaction_log self @
                   [JObj [(''timestamp'', JStr now), (''action'', JStr ''REMOVE_BOOK''),
                          (''title'', JStr key),
                          (''details'',
                           JObj [(''title'', JStr (title book)), (''author'', JStr (author book)),
                                 (''final_stock'', JInt (stock book))])]]\<rparr>)"
proof (cases "0 < stock book")
  case True
  then have "lower confirm = ''y''" using assms(2) by simp
  then show ?thesis using assms(1) True
    by (simp add: remove_book_def Let_def log_transaction_def)
next
  case False
  then show ?thesis using assms(1)
    by (simp add: remove_book_def Let_def log_transaction_def)
qed

lemma get_after_delete:
  "get_book_by_title (self\<lparr>books := AList.delete key (books self), transaction_log := l\<rparr>) key = None"
  by (simp add: get_book_by_title_def delete_conv)

text \<open>
  C9. \<open>remove_book(key)\<close> returns \<open>False\<close> and changes nothing when the key is absent,
  and when the book has stock and the answer to the confirmation prompt is not \<open>y\<close> or
  \<open>Y\<close> (lemma \<open>lower_eq_y\<close>: these are the answers that the code accepts). When the
  book has no stock, or the answer confirms, it returns \<open>True\<close>, the ledger has one more
  entry, a \<open>REMOVE_BOOK\<close> with the title, the author and the final stock of the book, and
  the key is gone.
\<close>

theorem remove_book_contract:
  "(get_book_by_title self key = None \<longrightarrow>
      remove_book now confirm self key = (False, self)) \<and>
   (\<forall>book. get_book_by_title self key = Some book \<longrightarrow>
      (0 < stock book \<and> lower confirm \<noteq> ''y'' \<longrightarrow>
         remove_book now confirm self key = (False, self)) \<and>
      (stock book \<le> 0 \<or> lower confirm = ''y'' \<longrightarrow>
         remove_book now confirm self key =
           (True,
            self\<lparr>books := AList.delete key (books self),
                 transaction_log := transaction_log self @
                   [JObj [(''timestamp'', JStr now), (''action'', JStr ''REMOVE_BOOK''),
                          (''title'', JStr key),
                          (''details'',
                           JObj [(''title'', JStr (title book)), (''author'', JStr (author book)),
                                 (''final_stock'', JInt (stock book))])]]\<rparr>) \<and>
         get_book_by_title (snd (remove_book now confirm self key)) key = None))"
proof (intro conjI allI impI)
  assume "get_book_by_title self key = None"
  then show "remove_book now confirm self key = (False, self)" by (rule remove_book_absent)
next
  fix book
  assume "get_book_by_title self key = Some book" "0 < stock book \<and> lower confirm \<noteq> ''y''"
  then show "remove_book now confirm self key = (False, self)"
    using remove_book_refused by blast
next
  fix book
  assume a: "get_book_by_title self key = Some book" "stock book \<le> 0 \<or> lower confirm = ''y''"
  show "remove_book now confirm self key =
           (True,
            self\<lparr>books := AList.delete key (books self),
                 transaction_log := transaction_log self @
                   [JObj [(''timestamp'', JStr now), (''action'', JStr ''REMOVE_BOOK''),
                          (''title'', JStr key),
                          (''details'',
                           JObj [(''title'', JStr (title book)), (''author'', JStr (author book)),
                                 (''final_stock'', JInt (stock book))])]]\<rparr>)"
    using a by (rule remove_book_done)
  then show "get_book_by_title (snd (remove_book now confirm self key)) key = None"
    by (simp only: snd_conv get_after_delete)
qed

lemma of_char_y: "(of_char CHR ''y'' :: nat) = 121" "(of_char CHR ''Y'' :: nat) = 89"
  by simp_all

lemma lower_char_y: "lower_char c = CHR ''y'' \<longleftrightarrow> c = CHR ''y'' \<or> c = CHR ''Y''"
proof -
  define n where "n = (of_char c :: nat)"
  have y: "c = CHR ''y'' \<longleftrightarrow> n = 121" and Y: "c = CHR ''Y'' \<longleftrightarrow> n = 89"
    unfolding n_def by (metis of_char_y(1) of_char_eq_iff, metis of_char_y(2) of_char_eq_iff)
  have l: "lower_char c = (if (65 \<le> n \<and> n \<le> 90) \<or> (192 \<le> n \<and> n \<le> 222 \<and> n \<noteq> 215)
         then char_of (n + 32) else c)"
    by (simp add: lower_char_def Let_def n_def)
  show ?thesis
  proof (cases "(65 \<le> n \<and> n \<le> 90) \<or> (192 \<le> n \<and> n \<le> 222 \<and> n \<noteq> 215)")
    case True
    then have m: "(n + 32) mod 256 = n + 32" by auto
    have "lower_char c = char_of (n + 32)" using True unfolding l by (simp only: if_True)
    then have "lower_char c = CHR ''y'' \<longleftrightarrow> (n + 32) mod 256 = 121"
      by (simp add: char_of_eq_iff take_bit_eq_mod)
    also have "\<dots> \<longleftrightarrow> n = 89" unfolding m by auto
    finally have "lower_char c = CHR ''y'' \<longleftrightarrow> n = 89" .
    moreover have "n \<noteq> 121" using True by auto
    ultimately show ?thesis by (simp add: y Y)
  next
    case False
    then have "lower_char c = c" unfolding l by (simp only: if_False)
    moreover have "n \<noteq> 89" using False by auto
    ultimately show ?thesis by (simp add: y Y)
  qed
qed

lemma lower_eq_y: "lower confirm = ''y'' \<longleftrightarrow> confirm = ''y'' \<or> confirm = ''Y''"
proof (cases confirm)
  case Nil
  then show ?thesis by (simp add: lower_def)
next
  case (Cons c cs)
  then show ?thesis by (cases cs) (auto simp: lower_def lower_char_y)
qed

theorem remove_book_contract_witness:
  "get_book_by_title dune_inventory ''Emma'' = None \<and>
   remove_book ''2024-01-01T00:00:00'' ''y'' dune_inventory ''Emma'' = (False, dune_inventory) \<and>
   get_book_by_title dune_inventory ''Dune'' = Some dune \<and>
   0 < stock dune \<and> lower ''n'' \<noteq> ''y'' \<and>
   remove_book ''2024-01-01T00:00:00'' ''n'' dune_inventory ''Dune'' = (False, dune_inventory) \<and>
   lower ''Y'' = ''y'' \<and>
   remove_book ''2024-01-01T00:00:00'' ''Y'' dune_inventory ''Dune'' =
     (True,
      dune_inventory\<lparr>books := [],
        transaction_log :=
          [JObj [(''timestamp'', JStr ''2024-01-01T00:00:00''), (''action'', JStr ''REMOVE_BOOK''),
                 (''title'', JStr ''Dune''),
                 (''details'',
                  JObj [(''title'', JStr ''Dune''), (''author'', JStr ''Herbert''),
                        (''final_stock'', JInt 3)])]]\<rparr>)"
proof -
  have a: "get_book_by_title dune_inventory ''Emma'' = None"
    by (simp add: get_book_by_title_def dune_inventory_def)
  have b: "get_book_by_title dune_inventory ''Dune'' = Some dune"
    by (simp add: get_book_by_title_def dune_inventory_def)
  have s: "stock dune = 3" "title dune = ''Dune''" "author dune = ''Herbert''"
    by (simp_all add: dune_def)
  have bs: "books dune_inventory = [(''Dune'', dune)]" "transaction_log dune_inventory = []"
    by (simp_all add: dune_inventory_def)
  have l: "lower ''n'' \<noteq> ''y''" "lower ''Y'' = ''y''"
    by (simp_all add: lower_eq_y)
  show ?thesis
    using remove_book_contract[of dune_inventory "''Emma''" "''2024-01-01T00:00:00''" "''y''"]
      remove_book_contract[of dune_inventory "''Dune''" "''2024-01-01T00:00:00''" "''n''"]
      remove_book_contract[of dune_inventory "''Dune''" "''2024-01-01T00:00:00''" "''Y''"]
    by (simp add: a b s bs l AList.delete_eq)
qed

lemma startswith_iff: "startswith s sub \<longleftrightarrow> (\<exists>after. s = sub @ after)"
  by (induction s sub rule: startswith.induct) auto

lemma str_contains_iff: "str_contains sub s \<longleftrightarrow> occurs_in sub s"
proof (induction s)
  case Nil
  then show ?case by (auto simp: occurs_in_def)
next
  case (Cons c s)
  have "occurs_in sub (c # s) \<longleftrightarrow> (\<exists>after. c # s = sub @ after) \<or> occurs_in sub s"
  proof
    assume "occurs_in sub (c # s)"
    then obtain before after where e: "c # s = before @ sub @ after"
      by (auto simp: occurs_in_def)
    show "(\<exists>after. c # s = sub @ after) \<or> occurs_in sub s"
    proof (cases before)
      case Nil
      then show ?thesis using e by auto
    next
      case (Cons b bs)
      then have "s = bs @ sub @ after" using e by simp
      then show ?thesis by (auto simp: occurs_in_def)
    qed
  next
    assume "(\<exists>after. c # s = sub @ after) \<or> occurs_in sub s"
    then show "occurs_in sub (c # s)"
    proof
      assume "\<exists>after. c # s = sub @ after"
      then obtain after where "c # s = [] @ sub @ after" by auto
      then show ?thesis unfolding occurs_in_def by blast
    next
      assume "occurs_in sub s"
      then obtain before after where "s = before @ sub @ after" by (auto simp: occurs_in_def)
      then have "c # s = (c # before) @ sub @ after" by simp
      then show ?thesis unfolding occurs_in_def by blast
    qed
  qed
  then show ?case using Cons by (simp add: startswith_iff)
qed

lemma str_contains_empty: "str_contains [] s"
  by (cases s) simp_all

lemma find_loop_filter:
  "find_loop search_term bs results =
     results @ filter (\<lambda>book. str_contains search_term (lower (title book)) \<or>
                           str_contains search_term (lower (author book))) bs"
  by (induction bs arbitrary: results) auto

lemma lower_char_space: "is_space c \<Longrightarrow> lower_char c = c"
  by (auto simp: is_space_def lower_char_def Let_def)

lemma strip_whitespace:
  assumes "\<forall>c\<in>set q. is_space c"
  shows "strip (lower q) = []"
proof -
  have l: "lower q = q" unfolding lower_def using assms by (simp add: lower_char_space map_idI)
  have d: "dropWhile is_space q = []" using assms by (simp only: dropWhile_eq_Nil_conv)
  show ?thesis unfolding strip_def l d by simp
qed

text \<open>
  C10. \<open>find_book(query)\<close> returns, in the order of the dictionary, the books in whose
  lowercased title or lowercased author the lowercased and then stripped query occurs as
  a substring; a query of whitespace only (the empty query included) returns every book.
\<close>

theorem find_book_matches:
  "find_book self query =
     filter (\<lambda>book. occurs_in (strip (lower query)) (lower (title book)) \<or>
                     occurs_in (strip (lower query)) (lower (author book)))
       (map snd (books self)) \<and>
   ((\<forall>c\<in>set query. is_space c) \<longrightarrow> find_book self query = map snd (books self))"
proof
  show f: "find_book self query =
     filter (\<lambda>book. occurs_in (strip (lower query)) (lower (title book)) \<or>
                     occurs_in (strip (lower query)) (lower (author book)))
       (map snd (books self))"
    by (simp add: find_book_def find_loop_filter str_contains_iff)
  show "(\<forall>c\<in>set query. is_space c) \<longrightarrow> find_book self query = map snd (books self)"
  proof
    assume "\<forall>c\<in>set query. is_space c"
    then have "strip (lower query) = []" by (rule strip_whitespace)
    then show "find_book self query = map snd (books self)"
      by (simp add: find_book_def find_loop_filter str_contains_empty)
  qed
qed

theorem find_book_matches_witness:
  "is_space CHR '' '' \<and> find_book dune_inventory ''  '' = [dune] \<and>
   find_book dune_inventory '' HERB '' = [dune] \<and> find_book dune_inventory ''emma'' = []"
proof -
  have sp: "is_space CHR '' ''" by (simp add: is_space_def)
  have bs: "books dune_inventory = [(''Dune'', dune)]" by (simp add: dune_inventory_def)
  have q0: "strip (lower ''  '') = []"
    by (rule strip_whitespace) (simp add: sp)
  have o0: "\<And>s. occurs_in [] s"
    unfolding str_contains_iff[symmetric] by (rule str_contains_empty)
  have q1: "strip (lower '' HERB '') = ''herb''"
    by (simp add: strip_def lower_def lower_char_def is_space_def char_of_eq_iff take_bit_eq_mod)
  have q2: "strip (lower ''emma'') = ''emma''"
    by (simp add: strip_def lower_def lower_char_def is_space_def)
  have t: "lower (title dune) = ''dune''" "lower (author dune) = ''herbert''"
    by (simp_all add: dune_def lower_def lower_char_def char_of_eq_iff take_bit_eq_mod)
  have o: "occurs_in ''herb'' ''herbert''" "\<not> occurs_in ''herb'' ''dune''"
    "\<not> occurs_in ''emma'' ''herbert''" "\<not> occurs_in ''emma'' ''dune''"
    unfolding str_contains_iff[symmetric] by simp_all
  show ?thesis
    using find_book_matches[of dune_inventory "''  ''"]
      find_book_matches[of dune_inventory "'' HERB ''"]
      find_book_matches[of dune_inventory "''emma''"]
    by (simp add: sp bs q0 o0 q1 q2 t o)
qed

lemma save_inventory_fails:
  "save_inventory now self fs =
     (False,
      if path_exists fs (json_file self)
      then rename fs (json_file self) (json_file self @ ''.backup'') else fs)"
  by (simp add: save_inventory_def calculate_total_inventory_value_def Let_def)

lemma save_inventory_leaves_no_primary:
  "snd (save_inventory now self fs) (json_file self) = None"
  by (simp add: save_inventory_fails path_exists_def rename_def)

lemma init_no_file:
  "fs path = None \<Longrightarrow>
   BookstoreInventory_init path fs = \<lparr>json_file = path, books = [], transaction_log = []\<rparr>"
  by (simp add: BookstoreInventory_init_def load_inventory_def)

lemma save_inventory_backup:
  "snd (save_inventory now self fs) (json_file self @ ''.backup'') =
     (if path_exists fs (json_file self) then fs (json_file self)
      else fs (json_file self @ ''.backup''))"
  by (simp add: save_inventory_fails rename_def)

text \<open>
  C1. The total inventory value that \<open>save_inventory\<close> is to write is never computed:
  evaluating \<open>self.calculate_total_inventory_value\<close> raises \<open>AttributeError\<close>, the
  \<open>except\<close> clause returns \<open>False\<close>, and after the call there is no file at the path
  of the inventory, whatever the inventory and the file system were before.
\<close>

theorem save_writes_no_total:
  "calculate_total_inventory_value self =
     Inl (AttributeError ''calculate_total_inventory_value'') \<and>
   fst (save_inventory now self fs) = False \<and>
   snd (save_inventory now self fs) (json_file self) = None"
  by (simp add: calculate_total_inventory_value_def save_inventory_leaves_no_primary)
    (simp add: save_inventory_fails)

text \<open>
  C2. The rename to the backup path happens before the failure. After two calls of
  \<open>save_inventory\<close> in succession there is no primary file, and the backup file is
  what the primary file was before the first call (or the earlier backup, if there was no
  primary file): neither holds the state of a save.
\<close>

theorem save_twice_leaves_no_file:
  "snd (save_inventory later self (snd (save_inventory now self fs))) (json_file self) = None \<and>
   snd (save_inventory later self (snd (save_inventory now self fs))) (json_file self @ ''.backup'') =
     (if path_exists fs (json_file self) then fs (json_file self)
      else fs (json_file self @ ''.backup''))"
proof
  show "snd (save_inventory later self (snd (save_inventory now self fs))) (json_file self) = None"
    by (rule save_inventory_leaves_no_primary)
  have "\<not> path_exists (snd (save_inventory now self fs)) (json_file self)"
    by (simp add: path_exists_def save_inventory_leaves_no_primary)
  then show "snd (save_inventory later self (snd (save_inventory now self fs))) (json_file self @ ''.backup'') =
     (if path_exists fs (json_file self) then fs (json_file self)
      else fs (json_file self @ ''.backup''))"
    by (simp add: save_inventory_backup[of later] save_inventory_backup[of now])
qed

text \<open>
  C3. An inventory constructed on the same path after \<open>save_inventory\<close> is empty: the
  save has left no file there, so \<open>load_inventory\<close> starts fresh and every book and
  every ledger entry of the saved state is lost.
\<close>

theorem save_then_load_is_empty:
  "BookstoreInventory_init (json_file self) (snd (save_inventory now self fs)) =
     \<lparr>json_file = json_file self, books = [], transaction_log = []\<rparr>"
  by (rule init_no_file) (rule save_inventory_leaves_no_primary)

lemma update_fresh: "map_of al k = None \<Longrightarrow> AList.update k v al = al @ [(k, v)]"
  by (induction al) (auto split: if_splits)

lemma Book_init_title: "Book_init t a p s = Inr book \<Longrightarrow> title book = strip t"
  by (auto simp: Book_init_def split: sum.splits)

lemma Book_init_Inr:
  "Book_init t a p s = Inr book \<longleftrightarrow>
     (\<exists>p'. ceil_cents p = Inr p' \<and>
        book = \<lparr>title = strip t, author = strip a, price = p', stock = max 0 s\<rparr>)"
  by (auto simp: Book_init_def split: sum.splits)

lemma Book_init_Inl: "Book_init t a p s = Inl e \<longleftrightarrow> ceil_cents p = Inl e"
  by (auto simp: Book_init_def split: sum.splits)

text \<open>
  C5, amended. \<open>add_book(title, author, price, stock)\<close> constructs the book first. When
  \<open>math.ceil(price * 100) / 100\<close> raises (the price is NaN or an infinity, or its product
  with 100 is not finite), the exception reaches the caller and nothing changes. When it
  yields the rounded price: with the stripped title already a key, the call returns that
  key and changes nothing; with a fresh key, it returns the key, the book is the last entry
  of the dictionary, and the ledger has one more entry, an \<open>ADD_BOOK\<close> with the
  title, the author, the rounded price and the stock as it was passed. The rounding is
  defined for every finite float of magnitude up to \<open>2 ^ 1000\<close>.
\<close>

theorem add_book_contract:
  "(\<forall>e. ceil_cents price' = Inl e \<longrightarrow>
      add_book now self title' author' price' stock' = Inl e) \<and>
   (\<forall>p. ceil_cents price' = Inr p \<longrightarrow>
      (get_book_by_title self (strip title') \<noteq> None \<longrightarrow>
         add_book now self title' author' price' stock' = Inr (strip title', self)) \<and>
      (get_book_by_title self (strip title') = None \<longrightarrow>
         add_book now self title' author' price' stock' =
           Inr (strip title',
                self\<lparr>books := books self @
                       [(strip title',
                         \<lparr>title = strip title', author = strip author', price = p,
                          stock = max 0 stock'\<rparr>)],
                     transaction_log := transaction_log self @
                       [JObj [(''timestamp'', JStr now), (''action'', JStr ''ADD_BOOK''),
                              (''title'', JStr (strip title')),
                              (''details'',
                               JObj [(''title'', JStr (strip title')),
                                     (''author'', JStr (strip author')),
                                     (''price'', JFloat p),
                                     (''initial_stock'', JInt stock')])]]\<rparr>))) \<and>
   (\<forall>a. price' = Fin a \<and> \<bar>a\<bar> \<le> 2 powi 1000 \<longrightarrow> (\<exists>r. ceil_cents price' = Inr (Fin r)))"
proof (intro conjI allI impI)
  fix e assume "ceil_cents price' = Inl e"
  then show "add_book now self title' author' price' stock' = Inl e"
    by (simp add: add_book_def Book_init_def)
next
  fix p assume "ceil_cents price' = Inr p" "get_book_by_title self (strip title') \<noteq> None"
  then show "add_book now self title' author' price' stock' = Inr (strip title', self)"
    by (simp add: add_book_def Book_init_def get_book_by_title_def)
next
  fix p assume "ceil_cents price' = Inr p" "get_book_by_title self (strip title') = None"
  then show "add_book now self title' author' price' stock' =
           Inr (strip title',
                self\<lparr>books := books self @
                       [(strip title',
                         \<lparr>title = strip title', author = strip author', price = p,
                          stock = max 0 stock'\<rparr>)],
                     transaction_log := transaction_log self @
                       [JObj [(''timestamp'', JStr now), (''action'', JStr ''ADD_BOOK''),
                              (''title'', JStr (strip title')),
                              (''details'',
                               JObj [(''title'', JStr (strip title')),
                                     (''author'', JStr (strip author')),
                                     (''price'', JFloat p),
                                     (''initial_stock'', JInt stock')])]]\<rparr>)"
    by (simp add: add_book_def Book_init_def get_book_by_title_def log_transaction_def update_fresh)
next
  fix a assume "price' = Fin a \<and> \<bar>a\<bar> \<le> 2 powi 1000"
  then show "\<exists>r. ceil_cents price' = Inr (Fin r)"
    using ceil_cents_total by blast
qed

text \<open>
  C5 as stated fails: with the key present and a NaN price (the interactive layer accepts
  the input \<open>nan\<close>, which is not below zero), the caller gets a \<open>ValueError\<close>.
\<close>

theorem add_book_nan_counterexample:
  "get_book_by_title dune_inventory (strip ''Dune'') = Some dune \<and>
   add_book ''2024-01-01T00:00:00'' dune_inventory ''Dune'' ''Herbert'' NaN 3 = Inl ValueError"
  by (simp add: add_book_def Book_init_def ceil_cents_special get_book_by_title_def
      dune_inventory_def strip_Dune)

lemma float_21_004_in_range: "\<bar>5912100410830619 / 281474976710656 :: rat\<bar> \<le> 2 powi 1000"
proof -
  have "\<bar>5912100410830619 / 281474976710656 :: rat\<bar> \<le> 2 powi 5" by simp
  also have "\<dots> \<le> 2 powi 1000" by (rule powi2_mono) simp
  finally show ?thesis .
qed

theorem add_book_contract_witness:
  "ceil_cents PInf = Inl OverflowError \<and>
   add_book ''2024-01-01T00:00:00'' dune_inventory ''Dune'' ''Herbert'' PInf 3 = Inl OverflowError \<and>
   ceil_cents (float_lit (21004 / 1000)) = Inr (float_lit (2101 / 100)) \<and>
   get_book_by_title dune_inventory (strip ''  Dune '') \<noteq> None \<and>
   add_book ''2024-01-01T00:00:00'' dune_inventory ''  Dune '' ''Herbert'' (float_lit (21004 / 1000)) 7 =
     Inr (''Dune'', dune_inventory) \<and>
   get_book_by_title (dune_inventory\<lparr>books := []\<rparr>) (strip ''  Dune '') = None \<and>
   add_book ''2024-01-01T00:00:00'' (dune_inventory\<lparr>books := []\<rparr>) ''  Dune '' ''Herbert''
       (float_lit (21004 / 1000)) 3 =
     Inr (''Dune'',
          dune_inventory\<lparr>transaction_log :=
            [JObj [(''timestamp'', JStr ''2024-01-01T00:00:00''), (''action'', JStr ''ADD_BOOK''),
                   (''title'', JStr ''Dune''),
                   (''details'',
                    JObj [(''title'', JStr ''Dune''), (''author'', JStr ''Herbert''),
                          (''price'', JFloat (float_lit (2101 / 100))),
                          (''initial_stock'', JInt 3)])]]\<rparr>) \<and>
   float_lit (21004 / 1000) = Fin (5912100410830619 / 281474976710656) \<and>
   \<bar>5912100410830619 / 281474976710656 :: rat\<bar> \<le> 2 powi 1000 \<and>
   (\<exists>r. ceil_cents (float_lit (21004 / 1000)) = Inr (Fin r))"
proof -
  have c: "ceil_cents (float_lit (21004 / 1000)) = Inr (float_lit (2101 / 100))"
    by (simp add: float_lit_def round_21_004 round_21_01 ceil_cents_21_004)
  have f: "float_lit (21004 / 1000) = Fin (5912100410830619 / 281474976710656)"
    by (simp add: float_lit_def round_21_004)
  have s: "strip ''  Dune '' = ''Dune''" by (simp add: strip_def is_space_def)
  have g: "get_book_by_title dune_inventory ''Dune'' = Some dune"
    "get_book_by_title (dune_inventory\<lparr>books := []\<rparr>) ''Dune'' = None"
    by (simp_all add: get_book_by_title_def dune_inventory_def)
  have d: "dune_inventory\<lparr>books := []\<rparr>\<lparr>books := [(''Dune'', dune)], transaction_log := l\<rparr> =
           dune_inventory\<lparr>transaction_log := l\<rparr>" for l
    by (simp add: dune_inventory_def)
  have b: "\<lparr>title = ''Dune'', author = ''Herbert'', price = float_lit (2101 / 100), stock = 3\<rparr> = dune"
    by (simp add: dune_def)
  note r = float_21_004_in_range
  have t1: "add_book ''2024-01-01T00:00:00'' dune_inventory ''Dune'' ''Herbert'' PInf 3 = Inl OverflowError"
    using add_book_contract[of PInf "''2024-01-01T00:00:00''" dune_inventory "''Dune''" "''Herbert''" 3]
    by (simp add: ceil_cents_special)
  have t2: "add_book ''2024-01-01T00:00:00'' dune_inventory ''  Dune '' ''Herbert'' (float_lit (21004 / 1000)) 7 =
     Inr (''Dune'', dune_inventory)"
    using add_book_contract[of "float_lit (21004 / 1000)" "''2024-01-01T00:00:00''" dune_inventory
        "''  Dune ''" "''Herbert''" 7] c
    by (simp add: s g)
  have t3: "add_book ''2024-01-01T00:00:00'' (dune_inventory\<lparr>books := []\<rparr>) ''  Dune '' ''Herbert''
       (float_lit (21004 / 1000)) 3 =
     Inr (''Dune'',
          dune_inventory\<lparr>transaction_log :=
            [JObj [(''timestamp'', JStr ''2024-01-01T00:00:00''), (''action'', JStr ''ADD_BOOK''),
                   (''title'', JStr ''Dune''),
                   (''details'',
                    JObj [(''title'', JStr ''Dune''), (''author'', JStr ''Herbert''),
                          (''price'', JFloat (float_lit (2101 / 100))),
                          (''initial_stock'', JInt 3)])]]\<rparr>)"
    using add_book_contract[of "float_lit (21004 / 1000)" "''2024-01-01T00:00:00''"
        "dune_inventory\<lparr>books := []\<rparr>" "''  Dune ''" "''Herbert''" 3] c
    by (simp add: s g strip_Dune b) (simp add: dune_inventory_def)
  have t4: "\<exists>r. ceil_cents (float_lit (21004 / 1000)) = Inr (Fin r)"
    using add_book_contract[of "float_lit (21004 / 1000)" "''2024-01-01T00:00:00''" dune_inventory
        "''Dune''" "''Herbert''" 3] f r
    by blast
  show ?thesis
    using t1 t2 t3 t4 c f r g by (simp only: ceil_cents_special s simp_thms option.simps)
qed

lemma round_21_01_times_100:
  "round_double (147844731517272075 / 70368744177664) = Fin 2101"
proof -
  have r: "round_half_even (147844731517272075 / 70368744177664 / 2 powi (- 41)) = 4620147859914752"
    by (rule round_half_even_cert) simp_all
  show ?thesis
    using round_double_eval[of "147844731517272075 / 70368744177664" 11 "- 41" 4620147859914752 64] r
    by simp
qed

lemma ceil_cents_21_01:
  "ceil_cents (Fin (5913789260690883 / 281474976710656)) = Inr (Fin (5913789260690883 / 281474976710656))"
  by (simp add: ceil_cents_def fmul_int_100 round_21_01_times_100 int_div_100_def round_21_01)

lemma from_dict_dune: "from_dict (to_dict dune) = Inr dune"
  by (simp add: from_dict_def to_dict_def dune_def Book_init_def float_lit_def round_21_01
      ceil_cents_21_01 strip_Dune)

lemma from_dict_emma: "from_dict (to_dict emma) = Inr emma"
proof -
  have "strip ''Emma'' = ''Emma''" "strip ''Austen'' = ''Austen''"
    by (simp_all add: strip_def is_space_def)
  then show ?thesis
    by (simp add: from_dict_def to_dict_def emma_def Book_init_def float_lit_def round_21_01
        ceil_cents_21_01)
qed

lemma from_dict_no_price:
  "from_dict \<lparr>title_entry = Some t, author_entry = Some a, price_entry = None, stock_entry = s\<rparr> =
     Inl (KeyError ''price'')"
  by (simp add: from_dict_def)

text \<open>
  The loop stores the accepted books in the order of the document: after a run of
  accepted entries with distinct keys, none of them stored yet, they stand at the end of
  the dictionary, each under its key.
\<close>

lemma load_books_accepted:
  assumes "list_all2 (\<lambda>entry stored. fst stored = fst entry \<and>
             from_dict (snd entry) = Inr (snd stored)) good kept"
    and "distinct (map fst good)"
    and "list_all (\<lambda>k. map_of bs k = None) (map fst good)"
  shows "load_books (good @ rest) bs = load_books rest (bs @ kept)"
  using assms
proof (induction good kept arbitrary: bs rule: list_all2_induct)
  case Nil
  then show ?case by simp
next
  case (Cons entry good stored kept)
  obtain k d where e: "entry = (k, d)" by (cases entry)
  obtain k' book where s: "stored = (k', book)" by (cases stored)
  from Cons.hyps(1) have k: "k' = k" and f: "from_dict d = Inr book" by (simp_all add: e s)
  from Cons.prems(2) have fresh: "map_of bs k = None" by (simp add: e)
  have step: "load_books ((entry # good) @ rest) bs = load_books (good @ rest) (bs @ [(k, book)])"
    by (simp add: e f update_fresh[OF fresh])
  have d: "distinct (map fst good)" using Cons.prems(1) by simp
  have "list_all (\<lambda>k2. map_of (bs @ [(k, book)]) k2 = None) (map fst good)"
    using Cons.prems by (auto simp: e list_all_iff map_add_def split: option.splits)
  from Cons.IH[OF d this] step show ?case by (simp add: s k)
qed

text \<open>
  C8, amended. Loading into a fresh inventory: with no file at the path, the inventory
  stays empty and the call returns \<open>True\<close>; with a file that does not parse, the error is
  caught, the call returns \<open>False\<close> and the inventory stays empty. With a document in
  which some books, under distinct keys as in any JSON object read into a dictionary,
  are each accepted by \<open>Book.from_dict\<close> and the book after them is rejected, the error
  is caught, the call returns \<open>False\<close>, the ledger stays empty, and the inventory holds
  exactly the accepted books before the rejected one, each under its key and in the
  order of the document (none, if the first book is the rejected one).
\<close>

theorem load_inventory_fallback:
  "(fs path = None \<longrightarrow>
      load_inventory \<lparr>json_file = path, books = [], transaction_log = []\<rparr> fs =
        (True, \<lparr>json_file = path, books = [], transaction_log = []\<rparr>)) \<and>
   (fs path = Some Unparsable \<longrightarrow>
      load_inventory \<lparr>json_file = path, books = [], transaction_log = []\<rparr> fs =
        (False, \<lparr>json_file = path, books = [], transaction_log = []\<rparr>)) \<and>
   (\<forall>data good kept t bad rest e.
      fs path = Some (Parsed data) \<and>
      books_entry data = Some (good @ (t, bad) # rest) \<and>
      distinct (map fst good) \<and>
      list_all2 (\<lambda>entry stored. fst stored = fst entry \<and>
                   from_dict (snd entry) = Inr (snd stored)) good kept \<and>
      from_dict bad = Inl e \<longrightarrow>
      load_inventory \<lparr>json_file = path, books = [], transaction_log = []\<rparr> fs =
        (False, \<lparr>json_file = path, books = kept, transaction_log = []\<rparr>))"
proof (intro conjI allI impI)
  assume "fs path = None"
  then show "load_inventory \<lparr>json_file = path, books = [], transaction_log = []\<rparr> fs =
        (True, \<lparr>json_file = path, books = [], transaction_log = []\<rparr>)"
    by (simp add: load_inventory_def)
next
  assume "fs path = Some Unparsable"
  then show "load_inventory \<lparr>json_file = path, books = [], transaction_log = []\<rparr> fs =
        (False, \<lparr>json_file = path, books = [], transaction_log = []\<rparr>)"
    by (simp add: load_inventory_def)
next
  fix data good kept t bad rest e
  assume a: "fs path = Some (Parsed data) \<and>
      books_entry data = Some (good @ (t, bad) # rest) \<and>
      distinct (map fst good) \<and>
      list_all2 (\<lambda>entry stored. fst stored = fst entry \<and>
                   from_dict (snd entry) = Inr (snd stored)) good kept \<and>
      from_dict bad = Inl e"
  have "load_books (good @ (t, bad) # rest) [] = load_books ((t, bad) # rest) ([] @ kept)"
    using a by (intro load_books_accepted) (simp_all add: list_all_iff)
  also have "\<dots> = (Some e, kept)" using a by simp
  finally have l: "load_books (good @ (t, bad) # rest) [] = (Some e, kept)" .
  show "load_inventory \<lparr>json_file = path, books = [], transaction_log = []\<rparr> fs =
        (False, \<lparr>json_file = path, books = kept, transaction_log = []\<rparr>)"
    using a by (simp add: load_inventory_def Let_def l)
qed

text \<open>
  C8 as stated fails: a document whose third book lacks its price leaves the first two
  books in the inventory, which is therefore not empty after the failed load.
\<close>

theorem load_inventory_keeps_partial_counterexample:
  "load_inventory \<lparr>json_file = ''books.json'', books = [], transaction_log = []\<rparr>
     (no_files(''books.json'' \<mapsto> Parsed damaged_document)) =
   (False,
    \<lparr>json_file = ''books.json'', books = [(''Dune'', dune), (''Emma'', emma)],
     transaction_log = []\<rparr>)"
  by (simp add: load_inventory_def Let_def damaged_document_def from_dict_dune from_dict_emma
      from_dict_no_price)

theorem load_inventory_fallback_witness:
  "no_files ''books.json'' = None \<and>
   load_inventory \<lparr>json_file = ''books.json'', books = [], transaction_log = []\<rparr> no_files =
     (True, \<lparr>json_file = ''books.json'', books = [], transaction_log = []\<rparr>) \<and>
   (no_files(''books.json'' \<mapsto> Unparsable)) ''books.json'' = Some Unparsable \<and>
   load_inventory \<lparr>json_file = ''books.json'', books = [], transaction_log = []\<rparr>
       (no_files(''books.json'' \<mapsto> Unparsable)) =
     (False, \<lparr>json_file = ''books.json'', books = [], transaction_log = []\<rparr>) \<and>
   (no_files(''books.json'' \<mapsto> Parsed damaged_document)) ''books.json'' =
     Some (Parsed damaged_document) \<and>
   books_entry damaged_document =
     Some ([(''Dune'', to_dict dune), (''Emma'', to_dict emma)] @
           (''Ulysses'',
            \<lparr>title_entry = Some ''Ulysses'', author_entry = Some ''Joyce'',
             price_entry = None, stock_entry = Some 2\<rparr>) # []) \<and>
   distinct (map fst [(''Dune'', to_dict dune), (''Emma'', to_dict emma)]) \<and>
   list_all2 (\<lambda>entry stored. fst stored = fst entry \<and> from_dict (snd entry) = Inr (snd stored))
     [(''Dune'', to_dict dune), (''Emma'', to_dict emma)] [(''Dune'', dune), (''Emma'', emma)] \<and>
   from_dict \<lparr>title_entry = Some ''Ulysses'', author_entry = Some ''Joyce'',
              price_entry = None, stock_entry = Some 2\<rparr> = Inl (KeyError ''price'') \<and>
   load_inventory \<lparr>json_file = ''books.json'', books = [], transaction_log = []\<rparr>
       (no_files(''books.json'' \<mapsto> Parsed damaged_document)) =
     (False,
      \<lparr>json_file = ''books.json'', books = [(''Dune'', dune), (''Emma'', emma)],
       transaction_log = []\<rparr>)"
proof -
  have n: "no_files ''books.json'' = None" by (simp add: no_files_def)
  have b: "books_entry damaged_document =
     Some ([(''Dune'', to_dict dune), (''Emma'', to_dict emma)] @
           (''Ulysses'',
            \<lparr>title_entry = Some ''Ulysses'', author_entry = Some ''Joyce'',
             price_entry = None, stock_entry = Some 2\<rparr>) # [])"
    by (simp add: damaged_document_def)
  have d: "distinct (map fst [(''Dune'', to_dict dune), (''Emma'', to_dict emma)])" by simp
  have k: "list_all2 (\<lambda>entry stored. fst stored = fst entry \<and> from_dict (snd entry) = Inr (snd stored))
     [(''Dune'', to_dict dune), (''Emma'', to_dict emma)] [(''Dune'', dune), (''Emma'', emma)]"
    by (simp add: from_dict_dune from_dict_emma)
  have f: "from_dict \<lparr>title_entry = Some ''Ulysses'', author_entry = Some ''Joyce'',
              price_entry = None, stock_entry = Some 2\<rparr> = Inl (KeyError ''price'')"
    by (rule from_dict_no_price)
  have u: "(no_files(''books.json'' \<mapsto> Parsed damaged_document)) ''books.json'' =
     Some (Parsed damaged_document)" by simp
  note t = load_inventory_fallback[of "no_files(''books.json'' \<mapsto> Parsed damaged_document)"
      "''books.json''"]
  have c: "load_inventory \<lparr>json_file = ''books.json'', books = [], transaction_log = []\<rparr>
       (no_files(''books.json'' \<mapsto> Parsed damaged_document)) =
     (False,
      \<lparr>json_file = ''books.json'', books = [(''Dune'', dune), (''Emma'', emma)],
       transaction_log = []\<rparr>)"
    using t[THEN conjunct2, THEN conjunct2] u b d k f by blast
  have c0: "load_inventory \<lparr>json_file = ''books.json'', books = [], transaction_log = []\<rparr> no_files =
     (True, \<lparr>json_file = ''books.json'', books = [], transaction_log = []\<rparr>)"
    using load_inventory_fallback[of no_files "''books.json''", THEN conjunct1] n by blast
  have u1: "(no_files(''books.json'' \<mapsto> Unparsable)) ''books.json'' = Some Unparsable" by simp
  have c1: "load_inventory \<lparr>json_file = ''books.json'', books = [], transaction_log = []\<rparr>
       (no_files(''books.json'' \<mapsto> Unparsable)) =
     (False, \<lparr>json_file = ''books.json'', books = [], transaction_log = []\<rparr>)"
    using load_inventory_fallback[of "no_files(''books.json'' \<mapsto> Unparsable)" "''books.json''",
        THEN conjunct2, THEN conjunct1] u1 by blast
  show ?thesis by (intro conjI n c0 u1 c1 u b d k f c)
qed

lemma Book_init_success_iff:
  "(\<exists>book. Book_init t a p s = Inr book) \<longleftrightarrow> (\<exists>p'. ceil_cents p = Inr p')"
  by (auto simp: Book_init_Inr)

text \<open>
  C7, amended. Stock and price stay non-negative. \<open>Book.__init__\<close> with a non-negative
  finite price yields, when it returns, the stock \<open>max(0, stock)\<close> and a non-negative
  finite price; whether it succeeds does not depend on the stock argument. It succeeds
  exactly when the float product of the price with 100 is finite, which is so for every
  non-negative price up to \<open>2 ^ 1000\<close>; otherwise \<open>math.ceil\<close> raises and no book is
  constructed. \<open>Book.update_stock\<close> returns \<open>False\<close> and leaves the book as it was
  when the stock would become negative, otherwise commits the sum; it never makes a
  non-negative stock negative and never touches the price. \<open>Book.update_price\<close> with a
  non-negative finite price keeps the stock and stores a non-negative finite price; it
  succeeds under the same condition as the constructor, and otherwise raises and leaves
  the book as it was.
\<close>

theorem entity_invariant:
  "(\<forall>a book. 0 \<le> a \<and> Book_init title' author' (Fin a) stock' = Inr book \<longrightarrow>
      stock book = max 0 stock' \<and> 0 \<le> stock book \<and> (\<exists>r. price book = Fin r \<and> 0 \<le> r)) \<and>
   (\<forall>other. (\<exists>book. Book_init title' author' price' stock' = Inr book) \<longleftrightarrow>
             (\<exists>book. Book_init title' author' price' other = Inr book)) \<and>
   (\<forall>a. 0 \<le> a \<and> a \<le> 2 powi 1000 \<longrightarrow> (\<exists>book. Book_init title' author' (Fin a) stock' = Inr book)) \<and>
   (stock self + delta < 0 \<longrightarrow> Book_update_stock self delta = (False, self)) \<and>
   (0 \<le> stock self + delta \<longrightarrow>
      Book_update_stock self delta = (True, self\<lparr>stock := stock self + delta\<rparr>)) \<and>
   (0 \<le> stock self \<longrightarrow> 0 \<le> stock (snd (Book_update_stock self delta)) \<and>
      price (snd (Book_update_stock self delta)) = price self) \<and>
   (\<forall>a self'. 0 \<le> a \<and> Book_update_price self (Fin a) = Inr self' \<longrightarrow>
      stock self' = stock self \<and> (\<exists>r. price self' = Fin r \<and> 0 \<le> r)) \<and>
   (\<forall>a. 0 \<le> a \<and> a \<le> 2 powi 1000 \<longrightarrow> (\<exists>self'. Book_update_price self (Fin a) = Inr self')) \<and>
   (\<forall>a. (\<exists>book. Book_init title' author' (Fin a) stock' = Inr book) \<longleftrightarrow>
          (\<exists>y. fmul (Fin a) (Fin 100) = Fin y)) \<and>
   (\<forall>a. (\<exists>self'. Book_update_price self (Fin a) = Inr self') \<longleftrightarrow>
          (\<exists>y. fmul (Fin a) (Fin 100) = Fin y))"
proof (intro conjI allI impI)
  fix a
  have "(\<exists>book. Book_init title' author' (Fin a) stock' = Inr book) \<longleftrightarrow>
        (\<exists>p. ceil_cents (Fin a) = Inr p)"
    by (rule Book_init_success_iff)
  then show "(\<exists>book. Book_init title' author' (Fin a) stock' = Inr book) \<longleftrightarrow>
          (\<exists>y. fmul (Fin a) (Fin 100) = Fin y)"
    by (simp add: ceil_cents_Fin_iff)
next
  fix a
  have "(\<exists>self'. Book_update_price self (Fin a) = Inr self') \<longleftrightarrow>
        (\<exists>p. ceil_cents (Fin a) = Inr p)"
    by (cases "ceil_cents (Fin a)") (simp_all add: Book_update_price_def)
  then show "(\<exists>self'. Book_update_price self (Fin a) = Inr self') \<longleftrightarrow>
          (\<exists>y. fmul (Fin a) (Fin 100) = Fin y)"
    by (simp add: ceil_cents_Fin_iff)
next
  fix a book
  assume h: "0 \<le> a \<and> Book_init title' author' (Fin a) stock' = Inr book"
  then obtain p where p: "ceil_cents (Fin a) = Inr p"
    and b: "book = \<lparr>title = strip title', author = strip author', price = p, stock = max 0 stock'\<rparr>"
    by (auto simp: Book_init_Inr)
  show "stock book = max 0 stock'" by (simp add: b)
  show "0 \<le> stock book" by (simp add: b)
  from h p have "\<exists>r. p = Fin r \<and> 0 \<le> r" by (intro ceil_cents_nonneg) auto
  then show "\<exists>r. price book = Fin r \<and> 0 \<le> r" by (simp add: b)
next
  fix other
  show "(\<exists>book. Book_init title' author' price' stock' = Inr book) \<longleftrightarrow>
        (\<exists>book. Book_init title' author' price' other = Inr book)"
    by (simp only: Book_init_success_iff)
next
  fix a :: rat
  assume "0 \<le> a \<and> a \<le> 2 powi 1000"
  then have "\<bar>a\<bar> \<le> 2 powi 1000" by simp
  then obtain r where "ceil_cents (Fin a) = Inr (Fin r)" using ceil_cents_total by blast
  then show "\<exists>book. Book_init title' author' (Fin a) stock' = Inr book"
    by (simp add: Book_init_def)
next
  assume "stock self + delta < 0"
  then show "Book_update_stock self delta = (False, self)"
    by (simp add: Book_update_stock_def)
next
  assume "0 \<le> stock self + delta"
  then show "Book_update_stock self delta = (True, self\<lparr>stock := stock self + delta\<rparr>)"
    by (simp add: Book_update_stock_def Let_def)
next
  assume "0 \<le> stock self"
  then show "0 \<le> stock (snd (Book_update_stock self delta))"
    by (simp add: Book_update_stock_def Let_def)
next
  show "price (snd (Book_update_stock self delta)) = price self"
    by (simp add: Book_update_stock_def Let_def)
next
  fix a self'
  assume h: "0 \<le> a \<and> Book_update_price self (Fin a) = Inr self'"
  then obtain p where p: "ceil_cents (Fin a) = Inr p" and b: "self' = self\<lparr>price := p\<rparr>"
    by (auto simp: Book_update_price_def split: sum.splits)
  show "stock self' = stock self" by (simp add: b)
  from h p have "\<exists>r. p = Fin r \<and> 0 \<le> r" by (intro ceil_cents_nonneg) auto
  then show "\<exists>r. price self' = Fin r \<and> 0 \<le> r" by (simp add: b)
next
  fix a :: rat
  assume "0 \<le> a \<and> a \<le> 2 powi 1000"
  then have "\<bar>a\<bar> \<le> 2 powi 1000" by simp
  then obtain r where "ceil_cents (Fin a) = Inr (Fin r)" using ceil_cents_total by blast
  then show "\<exists>self'. Book_update_price self (Fin a) = Inr self'"
    by (simp add: Book_update_price_def)
qed

text \<open>
  C7 as stated fails: positive infinity is a non-negative price (the interactive layer
  accepts the input \<open>inf\<close>, which is not below zero), and neither the constructor nor
  \<open>update_price\<close> rounds it to a result: both raise \<open>OverflowError\<close>.
\<close>

theorem entity_infinite_price_counterexample:
  "Book_init ''Dune'' ''Herbert'' PInf 3 = Inl OverflowError \<and>
   Book_update_price dune PInf = Inl OverflowError"
  by (simp add: Book_init_def Book_update_price_def ceil_cents_special)

theorem entity_invariant_witness:
  "(0::rat) \<le> 5912100410830619 / 281474976710656 \<and>
   Book_init ''Dune'' ''Herbert'' (Fin (5912100410830619 / 281474976710656)) (- 2) =
     Inr (dune\<lparr>stock := 0\<rparr>) \<and>
   stock (dune\<lparr>stock := 0\<rparr>) = max 0 (- 2) \<and> 0 \<le> stock (dune\<lparr>stock := 0\<rparr>) \<and>
   (\<exists>r. price (dune\<lparr>stock := 0\<rparr>) = Fin r \<and> 0 \<le> r) \<and>
   (5912100410830619 / 281474976710656 :: rat) \<le> 2 powi 1000 \<and>
   stock dune + (- 5) < 0 \<and> Book_update_stock dune (- 5) = (False, dune) \<and>
   0 \<le> stock dune + 2 \<and> Book_update_stock dune 2 = (True, dune\<lparr>stock := 5\<rparr>) \<and>
   0 \<le> stock dune \<and> 0 \<le> stock (snd (Book_update_stock dune 2)) \<and>
   Book_update_price (dune\<lparr>price := Fin 0\<rparr>) (Fin (5912100410830619 / 281474976710656)) = Inr dune \<and>
   stock dune = stock (dune\<lparr>price := Fin 0\<rparr>) \<and> (\<exists>r. price dune = Fin r \<and> 0 \<le> r)"
proof -
  have a: "(0::rat) \<le> 5912100410830619 / 281474976710656" by simp
  have r: "(5912100410830619 / 281474976710656 :: rat) \<le> 2 powi 1000"
    by (rule abs_le_D1[OF float_21_004_in_range])
  have i: "Book_init ''Dune'' ''Herbert'' (Fin (5912100410830619 / 281474976710656)) (- 2) =
     Inr (dune\<lparr>stock := 0\<rparr>)"
    by (simp add: Book_init_def ceil_cents_21_004 strip_Dune dune_def float_lit_def round_21_01)
  have s: "stock dune = 3" by (simp add: dune_def)
  have p: "Book_update_price (dune\<lparr>price := Fin 0\<rparr>) (Fin (5912100410830619 / 281474976710656)) = Inr dune"
    by (simp add: Book_update_price_def ceil_cents_21_004 dune_def float_lit_def round_21_01)
  note t1 = entity_invariant[of "''Dune''" "''Herbert''" "- 2" "Fin 0" dune "- 5"]
  note t2 = entity_invariant[of "''Dune''" "''Herbert''" "- 2" "Fin 0" dune 2]
  note t3 = entity_invariant[of "''Dune''" "''Herbert''" "- 2" "Fin 0" "dune\<lparr>price := Fin 0\<rparr>" 2]
  have c1: "stock (dune\<lparr>stock := 0\<rparr>) = max 0 (- 2) \<and> 0 \<le> stock (dune\<lparr>stock := 0\<rparr>) \<and>
      (\<exists>r. price (dune\<lparr>stock := 0\<rparr>) = Fin r \<and> 0 \<le> r)"
    using t1[THEN conjunct1] a i by blast
  have n: "stock dune + (- 5) < 0" "0 \<le> stock dune + 2" "0 \<le> stock dune" by (simp_all add: s)
  have c2: "Book_update_stock dune (- 5) = (False, dune)"
    using t1[THEN conjunct2, THEN conjunct2, THEN conjunct2, THEN conjunct1] n(1) by blast
  have c3: "Book_update_stock dune 2 = (True, dune\<lparr>stock := stock dune + 2\<rparr>)"
    using t2[THEN conjunct2, THEN conjunct2, THEN conjunct2, THEN conjunct2, THEN conjunct1] n(2)
    by blast
  have c4: "0 \<le> stock (snd (Book_update_stock dune 2))"
    using t2[THEN conjunct2, THEN conjunct2, THEN conjunct2, THEN conjunct2, THEN conjunct2,
        THEN conjunct1] n(3)
    by blast
  have c5: "stock dune = stock (dune\<lparr>price := Fin 0\<rparr>) \<and> (\<exists>r. price dune = Fin r \<and> 0 \<le> r)"
    using t3[THEN conjunct2, THEN conjunct2, THEN conjunct2, THEN conjunct2, THEN conjunct2,
        THEN conjunct2, THEN conjunct1] a p
    by (metis (no_types))
  have c3': "Book_update_stock dune 2 = (True, dune\<lparr>stock := 5\<rparr>)"
    using c3 by (simp add: s)
  show ?thesis
    by (intro conjI a r i c1[THEN conjunct1] c1[THEN conjunct2, THEN conjunct1]
        c1[THEN conjunct2, THEN conjunct2] n c2 c3' c4 p c5[THEN conjunct1] c5[THEN conjunct2])
qed

section \<open>A further property: prices are rounded again on load\<close>

lemma round_1_0999: "round_double (10999 / 10000) = Fin (4953509230144809 / 4503599627370496)"
proof -
  have r: "round_half_even (10999 / 10000 / 2 powi (- 52)) = 4953509230144809"
    by (rule round_half_even_cert) simp_all
  show ?thesis
    using round_double_eval[of "10999 / 10000" 0 "- 52" 4953509230144809 64] r by simp
qed

lemma round_1_0999_times_100: "round_double (123837730753620225 / 1125899906842624) = Fin (483741135756329 / 4398046511104)"
proof -
  have r: "round_half_even (123837730753620225 / 1125899906842624 / 2 powi (- 46)) = 7739858172101264"
    by (rule round_half_even_cert) simp_all
  show ?thesis
    using round_double_eval[of "123837730753620225 / 1125899906842624" 6 "- 46" 7739858172101264 64] r by simp
qed

lemma round_1_1: "round_double (11 / 10) = Fin (2476979795053773 / 2251799813685248)"
proof -
  have r: "round_half_even (11 / 10 / 2 powi (- 52)) = 4953959590107546"
    by (rule round_half_even_cert) simp_all
  show ?thesis
    using round_double_eval[of "11 / 10" 0 "- 52" 4953959590107546 64] r by simp
qed

lemma round_1_1_times_100: "round_double (61924494876344325 / 562949953421312) = Fin (7740561859543041 / 70368744177664)"
proof -
  have r: "round_half_even (61924494876344325 / 562949953421312 / 2 powi (- 46)) = 7740561859543041"
    by (rule round_half_even_cert) simp_all
  show ?thesis
    using round_double_eval[of "61924494876344325 / 562949953421312" 6 "- 46" 7740561859543041 64] r by simp
qed

lemma round_1_11: "round_double (111 / 100) = Fin (4998995586381251 / 4503599627370496)"
proof -
  have r: "round_half_even (111 / 100 / 2 powi (- 52)) = 4998995586381251"
    by (rule round_half_even_cert) simp_all
  show ?thesis
    using round_double_eval[of "111 / 100" 0 "- 52" 4998995586381251 64] r by simp
qed

lemma ceil_109_99: "\<lceil>483741135756329 / 4398046511104 :: rat\<rceil> = 110"
  by (rule ceiling_unique) simp_all

lemma ceil_110_00000000000001: "\<lceil>7740561859543041 / 70368744177664 :: rat\<rceil> = 111"
  by (rule ceiling_unique) simp_all

lemma ceil_cents_1_0999: "ceil_cents (Fin (4953509230144809 / 4503599627370496)) = Inr (Fin (2476979795053773 / 2251799813685248))"
  by (simp add: ceil_cents_def fmul_int_100 round_1_0999_times_100 ceil_109_99 int_div_100_def round_1_1)

lemma ceil_cents_1_1: "ceil_cents (Fin (2476979795053773 / 2251799813685248)) = Inr (Fin (4998995586381251 / 4503599627370496))"
  by (simp add: ceil_cents_def fmul_int_100 round_1_1_times_100 ceil_110_00000000000001
      int_div_100_def round_1_11)

text \<open>
  The ceiling is taken of a float product, and \<open>Book.from_dict\<close> takes it again. The
  price 1.0999 is stored as the float 1.1; the product of the float 1.1 with 100 is the
  float above 110, so reading the book back from its own dictionary stores 1.11.
\<close>

theorem reload_raises_price:
  "Book_init ''Dune'' ''Herbert'' (float_lit (10999 / 10000)) 3 =
     Inr (dune\<lparr>price := float_lit (11 / 10)\<rparr>) \<and>
   from_dict (to_dict (dune\<lparr>price := float_lit (11 / 10)\<rparr>)) =
     Inr (dune\<lparr>price := float_lit (111 / 100)\<rparr>) \<and>
   float_lit (111 / 100) \<noteq> float_lit (11 / 10)"
proof (intro conjI)
  show "Book_init ''Dune'' ''Herbert'' (float_lit (10999 / 10000)) 3 =
     Inr (dune\<lparr>price := float_lit (11 / 10)\<rparr>)"
    by (simp add: Book_init_def float_lit_def round_1_0999 round_1_1 ceil_cents_1_0999
        strip_Dune dune_def)
  show "from_dict (to_dict (dune\<lparr>price := float_lit (11 / 10)\<rparr>)) =
     Inr (dune\<lparr>price := float_lit (111 / 100)\<rparr>)"
    by (simp add: from_dict_def to_dict_def Book_init_def float_lit_def round_1_1 round_1_11
        ceil_cents_1_1 strip_Dune dune_def)
  show "float_lit (111 / 100) \<noteq> float_lit (11 / 10)"
    by (simp add: float_lit_def round_1_1 round_1_11)
qed

end
